theory Spec2Isabelle
  imports Complex_Main
begin

section \<open>JavaScript numbers\<close>

text \<open>
  The monitor (\<^verbatim>\<open>src/App.tsx\<close>) computes with JavaScript Numbers: IEEE 754 binary64
  values. A finite Number is represented by the rational it denotes; the two zeros are
  identified (no comparison in the program tells them apart). Every arithmetic result and
  every parsed literal goes through \<open>round_double\<close>, round-to-nearest, ties-to-even, with
  gradual underflow and overflow to the infinities from \<open>overflow_bound\<close>, that is
  \<open>2 ^ 1024\<close>, on.
\<close>

datatype number = NaN | PosInfinity | NegInfinity | Finite rat

definition pow2 :: "int \<Rightarrow> rat" where
  "pow2 i = (if 0 \<le> i then 2 ^ nat i else 1 / 2 ^ nat (- i))"

definition pow10 :: "int \<Rightarrow> rat" where
  "pow10 i = (if 0 \<le> i then 10 ^ nat i else 1 / 10 ^ nat (- i))"

text \<open>The number of binary, and of decimal, digits of a positive integer.\<close>

function bitlen :: "int \<Rightarrow> int" where
  "bitlen n = (if n \<le> 0 then 0 else 1 + bitlen (n div 2))"
  by pat_completeness auto
termination
  by (relation "measure nat") auto

function declen :: "int \<Rightarrow> int" where
  "declen n = (if n \<le> 0 then 0 else 1 + declen (n div 10))"
  by pat_completeness auto
termination
  by (relation "measure nat") auto

declare bitlen.simps [simp del] declen.simps [simp del]

text \<open>For \<open>0 < x\<close>: the integer \<open>e\<close> with \<open>2 ^ e \<le> x < 2 ^ (e + 1)\<close>.\<close>

definition floor_log2 :: "rat \<Rightarrow> int" where
  "floor_log2 x =
     (let (p, d) = quotient_of x;
          g = bitlen p - bitlen d
      in if pow2 g \<le> x then g else g - 1)"

text \<open>For \<open>0 < x\<close>: the integer \<open>n\<close> with \<open>10 ^ (n - 1) \<le> x < 10 ^ n\<close>.\<close>

definition decimal_exponent :: "rat \<Rightarrow> int" where
  "decimal_exponent x =
     (let (p, d) = quotient_of x;
          g = declen p - declen d
      in if pow10 g \<le> x then g + 1 else g)"

definition round_half_even :: "rat \<Rightarrow> int" where
  "round_half_even y =
     (let f = \<lfloor>y\<rfloor>; d = y - of_int f
      in if d < 1 / 2 then f else if 1 / 2 < d then f + 1
         else if even f then f else f + 1)"

definition overflow_bound :: rat where
  "overflow_bound = (2 ^ 32) ^ 32"

definition round_double :: "rat \<Rightarrow> number" where
  "round_double x =
     (if x = 0 then Finite 0
      else let a = \<bar>x\<bar>;
               e = max (floor_log2 a) (- 1022);
               ulp = pow2 (e - 52);
               r = of_int (round_half_even (a / ulp)) * ulp
           in if overflow_bound \<le> r then (if 0 < x then PosInfinity else NegInfinity)
              else Finite (if 0 < x then r else - r))"

text \<open>\<^verbatim>\<open>isNaN(x)\<close> and \<^verbatim>\<open>x > y\<close> on Numbers.\<close>

fun isNaN :: "number \<Rightarrow> bool" where
  "isNaN NaN = True"
| "isNaN _ = False"

fun num_gt :: "number \<Rightarrow> number \<Rightarrow> bool" where
  "num_gt NaN _ = False"
| "num_gt _ NaN = False"
| "num_gt PosInfinity PosInfinity = False"
| "num_gt PosInfinity _ = True"
| "num_gt NegInfinity _ = False"
| "num_gt (Finite a) PosInfinity = False"
| "num_gt (Finite a) NegInfinity = True"
| "num_gt (Finite a) (Finite b) = (b < a)"

text \<open>\<^verbatim>\<open>x * y\<close> on Numbers.\<close>

fun num_sign :: "number \<Rightarrow> int" where
  "num_sign NaN = 0"
| "num_sign PosInfinity = 1"
| "num_sign NegInfinity = - 1"
| "num_sign (Finite a) = (if 0 < a then 1 else if a < 0 then - 1 else 0)"

fun num_mul :: "number \<Rightarrow> number \<Rightarrow> number" where
  "num_mul NaN _ = NaN"
| "num_mul _ NaN = NaN"
| "num_mul (Finite a) (Finite b) = round_double (a * b)"
| "num_mul x y =
     (let s = num_sign x * num_sign y
      in if s = 0 then NaN else if 0 < s then PosInfinity else NegInfinity)"

section \<open>Strings and the built-in conversions\<close>

text \<open>
  Strings are lists of code units below 256. \<open>is_white\<close> is the WhiteSpace and
  LineTerminator set of ECMAScript in that range (TAB, LF, VT, FF, CR, SP, NBSP).
\<close>

definition is_white :: "char \<Rightarrow> bool" where
  "is_white c = (of_char c \<in> {9, 10, 11, 12, 13, 32, 160 :: int})"

definition is_digit :: "char \<Rightarrow> bool" where
  "is_digit c = (48 \<le> (of_char c :: int) \<and> (of_char c :: int) \<le> 57)"

definition digit_value :: "char \<Rightarrow> int" where
  "digit_value c = of_char c - 48"

definition digits_value :: "string \<Rightarrow> int" where
  "digits_value ds = foldl (\<lambda>acc c. 10 * acc + digit_value c) 0 ds"

definition digit_char :: "int \<Rightarrow> char" where
  "digit_char d = char_of (48 + d)"

text \<open>The decimal digits of a natural number, most significant first.\<close>

function digits_of :: "int \<Rightarrow> string" where
  "digits_of n = (if n < 10 then [digit_char n] else digits_of (n div 10) @ [digit_char (n mod 10)])"
  by pat_completeness auto
termination
  by (relation "measure nat") auto

declare digits_of.simps [simp del]

text \<open>An optional sign at the head of a string: whether it is \<^verbatim>\<open>-\<close>, and the rest.\<close>

definition split_sign :: "string \<Rightarrow> bool \<times> string" where
  "split_sign t =
     (case t of
        [] \<Rightarrow> (False, [])
      | c # r \<Rightarrow> if c = CHR ''-'' then (True, r) else if c = CHR ''+'' then (False, r) else (False, t))"

text \<open>
  \<^verbatim>\<open>parseInt(s, 10)\<close>: leading white space is skipped, an optional sign is read, then the
  longest run of decimal digits; no digit gives NaN, and whatever follows the digits is
  ignored. The digits are read exactly (the standard lets an implementation drop the
  digits after the twentieth) and the integer is then rounded to a Number.
\<close>

definition int_prefix :: "string \<Rightarrow> int option" where
  "int_prefix s =
     (let (neg, u) = split_sign (dropWhile is_white s);
          z = takeWhile is_digit u
      in if z = [] then None
         else Some (if neg then - digits_value z else digits_value z))"

definition parseInt :: "string \<Rightarrow> number" where
  "parseInt s = (case int_prefix s of None \<Rightarrow> NaN | Some z \<Rightarrow> round_double (of_int z))"

text \<open>
  The exponent part of a decimal literal: \<^verbatim>\<open>e\<close> or \<^verbatim>\<open>E\<close>, an optional sign and at
  least one digit. A dangling exponent indicator is not part of the literal. The result
  is the exponent and what follows the literal.
\<close>

definition exponent_part :: "string \<Rightarrow> int \<times> string" where
  "exponent_part r =
     (case r of
        [] \<Rightarrow> (0, r)
      | c # r' \<Rightarrow>
          if c = CHR ''e'' \<or> c = CHR ''E'' then
            (let (neg, u) = split_sign r'; ds = takeWhile is_digit u
             in if ds = [] then (0, r)
                else (if neg then - digits_value ds else digits_value ds, dropWhile is_digit u))
          else (0, r))"

text \<open>
  The longest prefix that is an unsigned StrDecimalLiteral other than \<^verbatim>\<open>Infinity\<close>:
  digits, an optional fraction, an optional exponent. The result is the exact value of
  the literal and what follows it; \<open>None\<close> when no prefix is a literal.
\<close>

definition unsigned_decimal :: "string \<Rightarrow> (rat \<times> string) option" where
  "unsigned_decimal u =
     (let ip = takeWhile is_digit u; r1 = dropWhile is_digit u;
          has_dot = (r1 \<noteq> [] \<and> hd r1 = CHR ''.'');
          fp = (if has_dot then takeWhile is_digit (tl r1) else []);
          r2 = (if has_dot then dropWhile is_digit (tl r1) else r1);
          (ex, r3) = exponent_part r2
      in if ip = [] \<and> fp = [] then None
         else Some (of_int (digits_value (ip @ fp)) * pow10 (ex - int (length fp)), r3))"

text \<open>\<^verbatim>\<open>parseFloat(s)\<close>: what follows the literal is ignored.\<close>

definition parseFloat :: "string \<Rightarrow> number" where
  "parseFloat s =
     (let (neg, u) = split_sign (dropWhile is_white s)
      in if take 8 u = ''Infinity'' then (if neg then NegInfinity else PosInfinity)
         else (case unsigned_decimal u of
                 None \<Rightarrow> NaN
               | Some (v, _) \<Rightarrow> round_double (if neg then - v else v)))"

text \<open>
  The conversion of a string to a Number (\<open>StringToNumber\<close>), which a comparison applies to
  a string operand: white space is trimmed on both sides, the empty string is \<open>0\<close>, and
  the whole rest has to be one literal, decimal or with a radix prefix.
\<close>

definition radix_digit :: "char \<Rightarrow> int" where
  "radix_digit c =
     (let n = of_char c
      in if 48 \<le> n \<and> n \<le> 57 then n - 48
         else if 97 \<le> n \<and> n \<le> 122 then n - 87
         else if 65 \<le> n \<and> n \<le> 90 then n - 55
         else 36)"

definition radix_literal :: "int \<Rightarrow> string \<Rightarrow> number" where
  "radix_literal b ds =
     (if ds \<noteq> [] \<and> list_all (\<lambda>c. radix_digit c < b) ds
      then round_double (of_int (foldl (\<lambda>acc c. b * acc + radix_digit c) 0 ds))
      else NaN)"

definition string_to_number :: "string \<Rightarrow> number" where
  "string_to_number s =
     (let t = rev (dropWhile is_white (rev (dropWhile is_white s)));
          p = take 2 t
      in if t = [] then Finite 0
         else if p = ''0x'' \<or> p = ''0X'' then radix_literal 16 (drop 2 t)
         else if p = ''0o'' \<or> p = ''0O'' then radix_literal 8 (drop 2 t)
         else if p = ''0b'' \<or> p = ''0B'' then radix_literal 2 (drop 2 t)
         else (let (neg, u) = split_sign t
               in if u = ''Infinity'' then (if neg then NegInfinity else PosInfinity)
                  else (case unsigned_decimal u of
                          Some (v, []) \<Rightarrow> round_double (if neg then - v else v)
                        | _ \<Rightarrow> NaN)))"

text \<open>
  \<^verbatim>\<open>x.toString()\<close> and \<^verbatim>\<open>`${x}`\<close> on a Number: the shortest decimal digit string that
  reads back as \<open>x\<close>. \<open>shortest fuel k x n\<close> tries \<open>k, k + 1, \<dots>\<close> digits for
  \<open>10 ^ (n - 1) \<le> x < 10 ^ n\<close> and returns the digits \<open>s\<close> and the exponent \<open>n\<close> of the
  first hit; of two hits with the same number of digits the nearer one is taken.
  Seventeen digits always suffice for a binary64 value; the fuel is spent only on a
  rational that is none.
\<close>

fun shortest :: "nat \<Rightarrow> nat \<Rightarrow> rat \<Rightarrow> int \<Rightarrow> int \<times> int" where
  "shortest 0 k x n = (\<lfloor>x / pow10 (n - int k)\<rfloor>, n)"
| "shortest (Suc fuel) k x n =
     (let u = pow10 (n - int k);
          lo = \<lfloor>x / u\<rfloor>; hi = lo + 1;
          ok_lo = (round_double (of_int lo * u) = Finite x);
          ok_hi = (round_double (of_int hi * u) = Finite x);
          near_lo = (x - of_int lo * u < of_int hi * u - x
                     \<or> (x - of_int lo * u = of_int hi * u - x \<and> even lo));
          up = (if hi = 10 ^ k then (1, n + 1) else (hi, n))
      in if ok_lo \<and> (\<not> ok_hi \<or> near_lo) then (lo, n)
         else if ok_hi then up
         else shortest fuel (Suc k) x n)"

definition format_digits :: "string \<Rightarrow> int \<Rightarrow> string" where
  "format_digits ds n =
     (let k = int (length ds)
      in if k \<le> n \<and> n \<le> 21 then ds @ replicate (nat (n - k)) CHR ''0''
         else if 0 < n \<and> n \<le> 21 then take (nat n) ds @ ''.'' @ drop (nat n) ds
         else if - 6 < n \<and> n \<le> 0 then ''0.'' @ replicate (nat (- n)) CHR ''0'' @ ds
         else (let e = n - 1;
                   es = (if e < 0 then ''-'' else ''+'') @ digits_of \<bar>e\<bar>
               in if k = 1 then ds @ ''e'' @ es
                  else hd ds # ''.'' @ tl ds @ ''e'' @ es))"

definition positive_to_string :: "rat \<Rightarrow> string" where
  "positive_to_string x =
     (let (s, n) = shortest 17 1 x (decimal_exponent x) in format_digits (digits_of s) n)"

fun to_string :: "number \<Rightarrow> string" where
  "to_string NaN = ''NaN''"
| "to_string PosInfinity = ''Infinity''"
| "to_string NegInfinity = ''-Infinity''"
| "to_string (Finite x) =
     (if x = 0 then ''0''
      else if x < 0 then ''-'' @ positive_to_string (- x)
      else positive_to_string x)"

text \<open>
  \<^verbatim>\<open>x.toFixed(f)\<close>: below \<open>10 ^ 21\<close> the value is rounded to \<open>f\<close> decimals (a tie goes
  up in magnitude) and printed with exactly \<open>f\<close> digits after the point; from \<open>10 ^ 21\<close>
  on, and for the non-finite Numbers, the result is that of \<open>to_string\<close>.
\<close>

definition fixed_digits :: "nat \<Rightarrow> rat \<Rightarrow> string" where
  "fixed_digits f a =
     (let m = digits_of \<lfloor>a * 10 ^ f + 1 / 2\<rfloor>;
          m' = (if length m \<le> f then replicate (Suc f - length m) CHR ''0'' @ m else m);
          k = length m'
      in if f = 0 then m else take (k - f) m' @ ''.'' @ drop (k - f) m')"

fun toFixed :: "nat \<Rightarrow> number \<Rightarrow> string" where
  "toFixed f (Finite x) =
     (if 10 ^ 21 \<le> \<bar>x\<bar> then to_string (Finite x)
      else (if x < 0 then ''-'' else '''') @ fixed_digits f \<bar>x\<bar>)"
| "toFixed f x = to_string x"

text \<open>\<^verbatim>\<open>s.includes(t)\<close>: \<open>t\<close> occurs in \<open>s\<close> as a contiguous substring.\<close>

fun is_prefix :: "string \<Rightarrow> string \<Rightarrow> bool" where
  "is_prefix [] s = True"
| "is_prefix (c # t) [] = False"
| "is_prefix (c # t) (d # s) = (c = d \<and> is_prefix t s)"

fun str_includes :: "string \<Rightarrow> string \<Rightarrow> bool" where
  "str_includes [] t = (t = [])"
| "str_includes (c # s) t = (is_prefix t (c # s) \<or> str_includes s t)"

section \<open>Values of the response body\<close>

text \<open>
  \<^verbatim>\<open>response.json()\<close> yields a JSON value; an object is the list of its own properties
  (distinct keys, as the parser builds it). Reading a property that is not there yields
  \<^verbatim>\<open>undefined\<close>, which is no JSON value.
\<close>

datatype json = JNull | JBool bool | JNum number | JStr string
  | JArr "json list" | JObj "(string \<times> json) list"

datatype js_value = Undefined | Val json

text \<open>
  What a \<^verbatim>\<open>catch\<close> receives: an \<^verbatim>\<open>Error\<close> object with its message, or any other
  value. The messages of the errors that the engine itself raises are those of V8.
\<close>

datatype thrown = JsError string | NonError

definition quoted :: "string \<Rightarrow> string" where
  "quoted k = [CHR 0x27] @ k @ [CHR 0x27]"

text \<open>
  \<^verbatim>\<open>v.k\<close> for a key \<open>k\<close> that no built-in prototype defines (\<^verbatim>\<open>rates\<close> and
  \<^verbatim>\<open>MYR\<close> below): \<^verbatim>\<open>undefined\<close> and \<^verbatim>\<open>null\<close> have no properties, an object has its
  own, and every other value has none of that name.
\<close>

fun get_prop :: "js_value \<Rightarrow> string \<Rightarrow> thrown + js_value" where
  "get_prop Undefined k =
     Inl (JsError (''Cannot read properties of undefined (reading '' @ quoted k @ '')''))"
| "get_prop (Val JNull) k =
     Inl (JsError (''Cannot read properties of null (reading '' @ quoted k @ '')''))"
| "get_prop (Val (JObj kvs)) k =
     Inr (case map_of kvs k of None \<Rightarrow> Undefined | Some v \<Rightarrow> Val v)"
| "get_prop (Val _) k = Inr Undefined"

text \<open>
  The conversion of a value to a string, as \<^verbatim>\<open>Array.prototype.join\<close> applies it to the
  elements of an array: \<^verbatim>\<open>null\<close> contributes the empty string, an array its own join, an
  object \<^verbatim>\<open>[object Object]\<close> unless an own property hides the inherited \<^verbatim>\<open>toString\<close>
  (a JSON value is never callable, so the conversion then fails).
\<close>

definition object_to_string :: "(string \<times> json) list \<Rightarrow> thrown + string" where
  "object_to_string kvs =
     (if ''toString'' \<in> set (map fst kvs)
      then Inl (JsError ''Cannot convert object to primitive value'')
      else Inr ''[object Object]'')"

fun element_to_string :: "json \<Rightarrow> thrown + string"
  and join_elements :: "json list \<Rightarrow> thrown + string" where
  "element_to_string JNull = Inr []"
| "element_to_string (JBool b) = Inr (if b then ''true'' else ''false'')"
| "element_to_string (JNum n) = Inr (to_string n)"
| "element_to_string (JStr s) = Inr s"
| "element_to_string (JArr xs) = join_elements xs"
| "element_to_string (JObj kvs) = object_to_string kvs"
| "join_elements [] = Inr []"
| "join_elements [x] = element_to_string x"
| "join_elements (x # y # ys) =
     (case element_to_string x of
        Inl e \<Rightarrow> Inl e
      | Inr a \<Rightarrow> (case join_elements (y # ys) of
                   Inl e \<Rightarrow> Inl e
                 | Inr b \<Rightarrow> Inr (a @ '','' @ b)))"

text \<open>
  The conversion to a Number that \<^verbatim>\<open>v > n\<close> applies to its left operand when the right
  one is a Number: an array or object first becomes a string.
\<close>

fun to_number :: "js_value \<Rightarrow> thrown + number" where
  "to_number Undefined = Inr NaN"
| "to_number (Val JNull) = Inr (Finite 0)"
| "to_number (Val (JBool b)) = Inr (Finite (if b then 1 else 0))"
| "to_number (Val (JNum n)) = Inr n"
| "to_number (Val (JStr s)) = Inr (string_to_number s)"
| "to_number (Val (JArr xs)) =
     (case join_elements xs of Inl e \<Rightarrow> Inl e | Inr s \<Rightarrow> Inr (string_to_number s))"
| "to_number (Val (JObj kvs)) =
     (case object_to_string kvs of Inl e \<Rightarrow> Inl e | Inr s \<Rightarrow> Inr (string_to_number s))"

definition js_gt :: "js_value \<Rightarrow> number \<Rightarrow> thrown + bool" where
  "js_gt v n = (case to_number v of Inl e \<Rightarrow> Inl e | Inr m \<Rightarrow> Inr (num_gt m n))"

text \<open>\<^verbatim>\<open>v.toFixed(f)\<close>: only a Number has the method.\<close>

fun call_toFixed :: "js_value \<Rightarrow> nat \<Rightarrow> thrown + string" where
  "call_toFixed (Val (JNum n)) f = Inr (toFixed f n)"
| "call_toFixed Undefined f =
     Inl (JsError (''Cannot read properties of undefined (reading '' @ quoted ''toFixed'' @ '')''))"
| "call_toFixed (Val JNull) f =
     Inl (JsError (''Cannot read properties of null (reading '' @ quoted ''toFixed'' @ '')''))"
| "call_toFixed (Val _) f = Inl (JsError ''newRate.toFixed is not a function'')"

section \<open>The application state\<close>

text \<open>
  The \<^verbatim>\<open>useState\<close> cells of \<^verbatim>\<open>App\<close>, and with them what the runtime holds on its
  behalf: the interval timer armed by the polling effect, the calls of \<^verbatim>\<open>fetchRate\<close>
  that await their response, and the trace of the effects on the outside (notifications,
  audio, console).

  \<^verbatim>\<open>fetchRate\<close> is a \<^verbatim>\<open>useCallback\<close> closure over \<^verbatim>\<open>threshold\<close> and
  \<^verbatim>\<open>notificationSound\<close>: a call in flight, and the timer, keep the values of the render
  that created them.
\<close>

datatype permission = Default | Granted | Denied

text \<open>\<^verbatim>\<open>Notification.permission\<close>; the global is absent in a browser without the API.\<close>

datatype notification_api = Unsupported | Supported permission

datatype action =
    PlayAudio string
  | ShowNotification string string bool
  | ConsoleError string string

text \<open>
  \<open>ShowNotification title body silent\<close> is \<^verbatim>\<open>new Notification(title, {body, silent})\<close>,
  \<open>silent\<close> false when the option is not set; \<open>PlayAudio url\<close> is
  \<^verbatim>\<open>new Audio(url).play()\<close>; \<open>ConsoleError label detail\<close> is \<^verbatim>\<open>console.error\<close>.
\<close>

record closure =
  cl_threshold :: number
  cl_sound :: string

record app =
  rate :: js_value
  lastChecked :: "int option"
  error :: "string option"
  isLoading :: bool
  threshold :: number
  inputThreshold :: string
  thresholdError :: "string option"
  checkInterval :: number
  inputCheckInterval :: string
  intervalError :: "string option"
  notificationSound :: string
  timer :: "(closure \<times> number) option"
  inFlight :: "closure list"
  effects :: "action list"

text \<open>What the outside decides when a call of \<^verbatim>\<open>fetchRate\<close> resumes.\<close>

datatype body = BodyFails thrown | Body json

datatype fetch_result = Rejected thrown | Response int string body

record env =
  notification :: notification_api
  now :: int
  playback :: "string option"

text \<open>
  \<open>Response status statusText body\<close>; \<open>BodyFails\<close> is the rejection of
  \<^verbatim>\<open>response.json()\<close>; \<open>playback\<close> is the reason of the rejection of
  \<^verbatim>\<open>audio.play()\<close>, if it is rejected.
\<close>

definition response_ok :: "int \<Rightarrow> bool" where
  "response_ok status = (200 \<le> status \<and> status \<le> 299)"

text \<open>A string or \<^verbatim>\<open>null\<close> in a condition: true unless \<^verbatim>\<open>null\<close> or empty.\<close>

fun truthy :: "string option \<Rightarrow> bool" where
  "truthy None = False"
| "truthy (Some s) = (s \<noteq> [])"

section \<open>\<^verbatim>\<open>fetchRate\<close>\<close>

text \<open>Lines 169 to 181: the decision to alert, and the alert.\<close>

definition alert_title :: string where
  "alert_title = ''SGD to MYR Rate Alert!''"

definition alert_body :: "string \<Rightarrow> number \<Rightarrow> string" where
  "alert_body fixed thr =
     ''SGD is now '' @ fixed @ '' MYR, exceeding the '' @ to_string thr @ '' threshold.''"

definition alert_step :: "closure \<Rightarrow> env \<Rightarrow> js_value \<Rightarrow> thrown + action list" where
  "alert_step cl ev newRate =
     (case js_gt newRate (cl_threshold cl) of
        Inl e \<Rightarrow> Inl e
      | Inr False \<Rightarrow> Inr []
      | Inr True \<Rightarrow>
          (case notification ev of
             Unsupported \<Rightarrow> Inl (JsError ''Notification is not defined'')
           | Supported p \<Rightarrow>
               if p \<noteq> Granted then Inr []
               else (case call_toFixed newRate 4 of
                       Inl e \<Rightarrow> Inl e
                     | Inr fixed \<Rightarrow>
                         (let b = alert_body fixed (cl_threshold cl)
                          in if cl_sound cl \<noteq> []
                             then Inr ([PlayAudio (cl_sound cl),
                                        ShowNotification alert_title b True]
                                       @ (case playback ev of
                                            None \<Rightarrow> []
                                          | Some m \<Rightarrow> [ConsoleError ''Error playing audio:'' m]))
                             else Inr [ShowNotification alert_title b False]))))"

text \<open>
  The \<^verbatim>\<open>try\<close> block from the first \<^verbatim>\<open>await\<close> on: the state it leaves and what it
  throws, if it throws.
\<close>

definition fetchRate_try :: "closure \<Rightarrow> env \<Rightarrow> fetch_result \<Rightarrow> app \<Rightarrow> thrown option \<times> app" where
  "fetchRate_try cl ev res s =
     (case res of
        Rejected e \<Rightarrow> (Some e, s)
      | Response status statusText b \<Rightarrow>
          if \<not> response_ok status
          then (Some (JsError (''API error: '' @ statusText @ '' ('' @ digits_of status @ '')'')), s)
          else (case b of
                  BodyFails e \<Rightarrow> (Some e, s)
                | Body data \<Rightarrow>
                    (case get_prop (Val data) ''rates'' of
                       Inl e \<Rightarrow> (Some e, s)
                     | Inr rates \<Rightarrow>
                         (case get_prop rates ''MYR'' of
                            Inl e \<Rightarrow> (Some e, s)
                          | Inr newRate \<Rightarrow>
                              (let s1 = s\<lparr>rate := newRate, lastChecked := Some (now ev)\<rparr>
                               in case alert_step cl ev newRate of
                                    Inl e \<Rightarrow> (Some e, s1)
                                  | Inr acts \<Rightarrow> (None, s1\<lparr>effects := effects s1 @ acts\<rparr>))))))"

text \<open>The call up to its first \<^verbatim>\<open>await\<close>, and the rest of it with \<^verbatim>\<open>catch\<close> and \<^verbatim>\<open>finally\<close>.\<close>

definition fetchRate_begin :: "closure \<Rightarrow> app \<Rightarrow> app" where
  "fetchRate_begin cl s = s\<lparr>isLoading := True, error := None, inFlight := inFlight s @ [cl]\<rparr>"

definition error_message :: "thrown \<Rightarrow> string" where
  "error_message e = (case e of JsError m \<Rightarrow> m | NonError \<Rightarrow> ''An unknown error occurred'')"

definition fetchRate_settle :: "closure \<Rightarrow> env \<Rightarrow> fetch_result \<Rightarrow> app \<Rightarrow> app" where
  "fetchRate_settle cl ev res s =
     (let (ex, s1) = fetchRate_try cl ev res s;
          s2 = (case ex of
                  None \<Rightarrow> s1
                | Some e \<Rightarrow>
                    s1\<lparr>error := Some (error_message e),
                       effects := effects s1
                         @ [ConsoleError ''Failed to fetch exchange rate:'' (error_message e)]\<rparr>)
      in s2\<lparr>isLoading := False\<rparr>)"

text \<open>One whole call, with nothing happening between its start and its end.\<close>

definition fetchRate :: "closure \<Rightarrow> env \<Rightarrow> fetch_result \<Rightarrow> app \<Rightarrow> app" where
  "fetchRate cl ev res s = fetchRate_settle cl ev res (s\<lparr>isLoading := True, error := None\<rparr>)"

section \<open>The status shown\<close>

datatype status = Initializing | Checking | Error | Monitoring

definition StatusIndicator :: "bool \<Rightarrow> string option \<Rightarrow> status" where
  "StatusIndicator loading err =
     (let statusText = Initializing
      in if loading then Checking
         else if truthy err then Error
         else Monitoring)"

definition status_of :: "app \<Rightarrow> status" where
  "status_of s = StatusIndicator (isLoading s) (error s)"

section \<open>The form handlers\<close>

definition handleThresholdChange :: "string \<Rightarrow> app \<Rightarrow> app" where
  "handleThresholdChange v s =
     (let s1 = s\<lparr>inputThreshold := v\<rparr>
      in if truthy (thresholdError s) then s1\<lparr>thresholdError := None\<rparr> else s1)"

definition handleSetThreshold :: "app \<Rightarrow> app" where
  "handleSetThreshold s =
     (let newThreshold = parseFloat (inputThreshold s)
      in if \<not> isNaN newThreshold \<and> num_gt newThreshold (Finite 0)
         then s\<lparr>threshold := newThreshold,
                inputThreshold := to_string newThreshold,
                thresholdError := None\<rparr>
         else s\<lparr>thresholdError := Some ''Please enter a valid positive number.''\<rparr>)"

definition handleCheckIntervalChange :: "string \<Rightarrow> app \<Rightarrow> app" where
  "handleCheckIntervalChange v s =
     (let s1 = s\<lparr>inputCheckInterval := v\<rparr>
      in if truthy (intervalError s) then s1\<lparr>intervalError := None\<rparr> else s1)"

definition handleSetCheckInterval :: "app \<Rightarrow> app" where
  "handleSetCheckInterval s =
     (let newInterval = parseInt (inputCheckInterval s)
      in if \<not> isNaN newInterval \<and> num_gt newInterval (Finite 0)
         then s\<lparr>checkInterval := newInterval,
                inputCheckInterval := to_string newInterval,
                intervalError := None\<rparr>
         else s\<lparr>intervalError := Some ''Please enter a valid positive number (minutes).''\<rparr>)"

definition handleSoundChange :: "string \<Rightarrow> app \<Rightarrow> app" where
  "handleSoundChange v s = s\<lparr>notificationSound := v\<rparr>"

section \<open>The polling effect and the events\<close>

text \<open>
  The effect of lines 191 to 197 calls \<^verbatim>\<open>fetchRate\<close> and arms
  \<^verbatim>\<open>setInterval(fetchRate, checkInterval * 60 * 1000)\<close>; its cleanup clears that timer.
  React runs the cleanup and the effect again after a render in which a dependency
  differs: \<^verbatim>\<open>checkInterval\<close>, or \<^verbatim>\<open>fetchRate\<close>, a new closure exactly when
  \<^verbatim>\<open>threshold\<close> or \<^verbatim>\<open>notificationSound\<close> differs.
\<close>

definition current_closure :: "app \<Rightarrow> closure" where
  "current_closure s = \<lparr>cl_threshold = threshold s, cl_sound = notificationSound s\<rparr>"

definition intervalMs :: "app \<Rightarrow> number" where
  "intervalMs s = num_mul (num_mul (checkInterval s) (Finite 60)) (Finite 1000)"

definition polling_effect :: "app \<Rightarrow> app" where
  "polling_effect s =
     (fetchRate_begin (current_closure s) s)\<lparr>timer := Some (current_closure s, intervalMs s)\<rparr>"

definition deps_changed :: "app \<Rightarrow> app \<Rightarrow> bool" where
  "deps_changed old new =
     (threshold new \<noteq> threshold old \<or> notificationSound new \<noteq> notificationSound old
      \<or> checkInterval new \<noteq> checkInterval old)"

definition commit :: "app \<Rightarrow> app \<Rightarrow> app" where
  "commit old new = (if deps_changed old new then polling_effect (new\<lparr>timer := None\<rparr>) else new)"

text \<open>The first render, and the state once its effects have run.\<close>

definition initial :: app where
  "initial =
     \<lparr>rate = Val JNull, lastChecked = None, error = None, isLoading = True,
      threshold = round_double (16 / 5), inputThreshold = ''3.20'', thresholdError = None,
      checkInterval = Finite 10, inputCheckInterval = ''10'', intervalError = None,
      notificationSound = [], timer = None, inFlight = [], effects = []\<rparr>"

definition mounted :: app where
  "mounted = polling_effect initial"

text \<open>
  What can happen next: the timer fires, the \<open>i\<close>-th call in flight resumes with its
  response, the user edits or submits a form, picks a sound, or clicks the refresh
  button, which is disabled while \<^verbatim>\<open>isLoading\<close>.
\<close>

datatype event =
    TimerFires
  | Settles nat env fetch_result
  | ThresholdInput string
  | SubmitThreshold
  | IntervalInput string
  | SubmitInterval
  | SoundChange string
  | RefreshClick

definition settle :: "nat \<Rightarrow> env \<Rightarrow> fetch_result \<Rightarrow> app \<Rightarrow> app" where
  "settle i ev res s =
     (if i < length (inFlight s)
      then fetchRate_settle (inFlight s ! i) ev res
             (s\<lparr>inFlight := take i (inFlight s) @ drop (Suc i) (inFlight s)\<rparr>)
      else s)"

fun step :: "app \<Rightarrow> event \<Rightarrow> app" where
  "step s TimerFires = (case timer s of None \<Rightarrow> s | Some (cl, _) \<Rightarrow> fetchRate_begin cl s)"
| "step s (Settles i ev res) = settle i ev res s"
| "step s (ThresholdInput v) = handleThresholdChange v s"
| "step s SubmitThreshold = commit s (handleSetThreshold s)"
| "step s (IntervalInput v) = handleCheckIntervalChange v s"
| "step s SubmitInterval = commit s (handleSetCheckInterval s)"
| "step s (SoundChange v) = commit s (handleSoundChange v s)"
| "step s RefreshClick = (if isLoading s then s else fetchRate_begin (current_closure s) s)"

definition run :: "event list \<Rightarrow> app" where
  "run evs = foldl step mounted evs"

section \<open>Observations on a trace of effects\<close>

fun is_notification :: "action \<Rightarrow> bool" where
  "is_notification (ShowNotification _ _ _) = True"
| "is_notification _ = False"

fun is_playback :: "action \<Rightarrow> bool" where
  "is_playback (PlayAudio _) = True"
| "is_playback _ = False"

text \<open>What a step from \<open>s\<close> to \<open>s'\<close> added to the trace.\<close>

definition new_effects :: "app \<Rightarrow> app \<Rightarrow> action list" where
  "new_effects s s' = drop (length (effects s)) (effects s')"

text \<open>
  A string with exactly \<open>f\<close> decimal places: an optional minus sign, at least one digit,
  a point, and \<open>f\<close> digits to the end.
\<close>

definition has_decimals :: "nat \<Rightarrow> string \<Rightarrow> bool" where
  "has_decimals f s =
     (let u = (if s \<noteq> [] \<and> hd s = CHR ''-'' then tl s else s);
          ip = takeWhile is_digit u; r = dropWhile is_digit u
      in ip \<noteq> [] \<and> r \<noteq> [] \<and> hd r = CHR ''.''
         \<and> length (tl r) = f \<and> list_all is_digit (tl r))"

section \<open>Rounding: the sign of the result\<close>

lemma bitlen_bounds:
  "0 < n \<Longrightarrow> \<exists>k. bitlen n = int (Suc k) \<and> 2 ^ k \<le> n \<and> n < 2 ^ Suc k"
proof (induction n rule: bitlen.induct)
  case (1 n)
  show ?case
  proof (cases "n div 2 \<le> 0")
    case True
    with "1.prems" have "n = 1" by linarith
    then have "bitlen n = int (Suc 0) \<and> 2 ^ 0 \<le> n \<and> n < 2 ^ Suc 0"
      by (simp add: bitlen.simps [of 1] bitlen.simps [of 0])
    then show ?thesis by blast
  next
    case False
    then have pos: "0 < n div 2" by simp
    with "1.IH" "1.prems" obtain k where
      k: "bitlen (n div 2) = int (Suc k)" "2 ^ k \<le> n div 2" "n div 2 < 2 ^ Suc k"
      by auto
    have "bitlen n = int (Suc (Suc k))"
      using "1.prems" k(1) bitlen.simps [of n] by simp
    moreover have "2 ^ Suc k \<le> n" using k(2) by simp
    moreover have "n < 2 ^ Suc (Suc k)" using k(3) by simp
    ultimately show ?thesis by blast
  qed
qed

lemma pow2_pos: "0 < pow2 i"
  by (simp add: pow2_def)

lemma pow2_diff: "pow2 (int a - int b) = 2 ^ a / 2 ^ b"
proof (cases "b \<le> a")
  case True
  then have "pow2 (int a - int b) = 2 ^ (a - b)"
    by (simp add: pow2_def nat_diff_distrib)
  then show ?thesis using True by (simp add: power_diff)
next
  case False
  then have lt: "a < b" by simp
  then have "pow2 (int a - int b) = 1 / 2 ^ (b - a)"
    by (simp add: pow2_def nat_diff_distrib)
  also have "\<dots> = 2 ^ a / 2 ^ b"
    using lt by (simp add: power_diff field_simps flip: power_add)
  finally show ?thesis .
qed

lemma floor_log2_le:
  assumes "0 < x"
  shows "pow2 (floor_log2 x) \<le> x"
proof -
  obtain p d where pd: "quotient_of x = (p, d)" by (cases "quotient_of x")
  then have d: "0 < d" and x: "x = of_int p / of_int d"
    using quotient_of_denom_pos [OF pd] quotient_of_div [OF pd] by auto
  from assms x d have p: "0 < p" by (simp add: zero_less_divide_iff)
  from bitlen_bounds [OF p] obtain kp where
    kp: "bitlen p = int (Suc kp)" "2 ^ kp \<le> p" by blast
  from bitlen_bounds [OF d] obtain kd where
    kd: "bitlen d = int (Suc kd)" "d < 2 ^ Suc kd" by blast
  have e: "bitlen p - bitlen d - 1 = int kp - int (Suc kd)"
    using kp(1) kd(1) by simp
  have "pow2 (bitlen p - bitlen d - 1) = 2 ^ kp / 2 ^ Suc kd"
    by (simp only: e pow2_diff)
  also have "\<dots> \<le> of_int p / of_int d"
  proof -
    have "(2::rat) ^ kp \<le> of_int p" using kp(2) by (metis of_int_le_iff of_int_numeral of_int_power)
    moreover have "(of_int d :: rat) \<le> 2 ^ Suc kd" using kd(2)
      by (metis less_imp_le of_int_le_iff of_int_numeral of_int_power)
    moreover have "(0::rat) < of_int d" using d by simp
    ultimately show ?thesis by (intro frac_le) (auto simp: p less_imp_le)
  qed
  finally have "pow2 (bitlen p - bitlen d - 1) \<le> x" using x by simp
  then show ?thesis
    by (simp add: floor_log2_def pd Let_def)
qed


lemma pow2_powi: "pow2 i = 2 powi i"
  by (simp add: pow2_def power_int_def power_one_over inverse_eq_divide)

lemma pow2_less: "i < j \<Longrightarrow> pow2 i < pow2 j"
  by (simp add: pow2_powi power_int_strict_increasing)

lemma pow2_half: "pow2 i / 2 = pow2 (i - 1)"
  by (simp add: pow2_powi power_int_diff)

lemma round_half_even_ge: "\<lfloor>y\<rfloor> \<le> round_half_even y"
  by (simp add: round_half_even_def Let_def)

lemma round_half_even_pos_iff:
  assumes "0 \<le> y"
  shows "0 < round_half_even y \<longleftrightarrow> 1 / 2 < y"
proof (cases "1 \<le> y")
  case True
  then have "1 \<le> \<lfloor>y\<rfloor>" by (simp add: le_floor_iff)
  with round_half_even_ge [of y] have "0 < round_half_even y" by linarith
  moreover have "1 / 2 < y" using True by simp
  ultimately show ?thesis by simp
next
  case False
  with assms have "\<lfloor>y\<rfloor> = 0" by (simp add: floor_eq_iff)
  then show ?thesis by (simp add: round_half_even_def Let_def)
qed

lemma significand_pos_iff:
  assumes "0 < a"
  shows "0 < round_half_even (a / pow2 (max (floor_log2 a) (- 1022) - 52)) \<longleftrightarrow> pow2 (- 1075) < a"
proof -
  let ?e = "max (floor_log2 a) (- 1022)"
  have "0 \<le> a / pow2 (?e - 52)" using assms pow2_pos [of "?e - 52"] by simp
  then have "0 < round_half_even (a / pow2 (?e - 52)) \<longleftrightarrow> 1 / 2 < a / pow2 (?e - 52)"
    by (rule round_half_even_pos_iff)
  also have "\<dots> \<longleftrightarrow> pow2 (?e - 52) / 2 < a"
    using pow2_pos [of "?e - 52"] by (simp add: field_simps)
  also have "\<dots> \<longleftrightarrow> pow2 (?e - 53) < a"
    using pow2_half [of "?e - 52"] by simp
  also have "\<dots> \<longleftrightarrow> pow2 (- 1075) < a"
  proof (cases "floor_log2 a < - 1022")
    case True
    then have "?e - 53 = - 1075" by simp
    then show ?thesis by simp
  next
    case False
    then have e: "?e = floor_log2 a" by simp
    have "pow2 (?e - 53) < pow2 ?e" by (rule pow2_less) simp
    also have "\<dots> \<le> a" using floor_log2_le [OF assms] e by simp
    finally have 1: "pow2 (?e - 53) < a" .
    have "pow2 (- 1075) < pow2 ?e" by (rule pow2_less) simp
    also have "\<dots> \<le> a" using floor_log2_le [OF assms] e by simp
    finally show ?thesis using 1 by simp
  qed
  finally show ?thesis .
qed

lemma round_double_not_NaN: "\<not> isNaN (round_double x)"
  by (simp add: round_double_def Let_def)

lemma round_double_pos_iff: "num_gt (round_double x) (Finite 0) \<longleftrightarrow> pow2 (- 1075) < x"
proof -
  consider "x = 0" | "x < 0" | "0 < x" by linarith
  then show ?thesis
  proof cases
    case 1
    then show ?thesis using pow2_pos [of "- 1075"] by (simp add: round_double_def)
  next
    case 2
    let ?u = "pow2 (max (floor_log2 \<bar>x\<bar>) (- 1022) - 52)"
    have "0 \<le> \<bar>x\<bar> / ?u" using pow2_pos [of "max (floor_log2 \<bar>x\<bar>) (- 1022) - 52"] by simp
    then have "0 \<le> \<lfloor>\<bar>x\<bar> / ?u\<rfloor>" by simp
    with round_half_even_ge [of "\<bar>x\<bar> / ?u"] have "0 \<le> round_half_even (\<bar>x\<bar> / ?u)" by linarith
    then have "0 \<le> of_int (round_half_even (\<bar>x\<bar> / ?u)) * ?u"
      using pow2_pos [of "max (floor_log2 \<bar>x\<bar>) (- 1022) - 52"] by simp
    moreover have "\<not> pow2 (- 1075) < x" using 2 pow2_pos [of "- 1075"] by simp
    ultimately show ?thesis using 2 by (simp add: round_double_def Let_def)
  next
    case 3
    let ?u = "pow2 (max (floor_log2 x) (- 1022) - 52)"
    let ?n = "round_half_even (x / ?u)"
    have u: "0 < ?u" by (rule pow2_pos)
    have n: "0 < ?n \<longleftrightarrow> pow2 (- 1075) < x" by (rule significand_pos_iff [OF 3])
    have r: "0 < of_int ?n * ?u \<longleftrightarrow> 0 < ?n" using u by (simp add: zero_less_mult_iff)
    have big: "overflow_bound \<le> of_int ?n * ?u \<Longrightarrow> 0 < of_int ?n * ?u"
      by (rule less_le_trans [of _ overflow_bound]) (simp_all add: overflow_bound_def)
    show ?thesis using 3 n r big by (auto simp: round_double_def Let_def)
  qed
qed

section \<open>Digit strings\<close>

lemma is_digit_digit_char: "0 \<le> d \<Longrightarrow> d < 10 \<Longrightarrow> is_digit (digit_char d)"
  by (simp add: is_digit_def digit_char_def)

lemma digits_of_digits:
  "0 \<le> n \<Longrightarrow> digits_of n \<noteq> [] \<and> list_all is_digit (digits_of n)"
proof (induction n rule: digits_of.induct)
  case (1 n)
  show ?case
  proof (cases "n < 10")
    case True
    with "1.prems" show ?thesis
      by (simp add: digits_of.simps [of n] is_digit_digit_char)
  next
    case False
    with "1.prems" have "0 \<le> n div 10" by simp
    with "1.IH" False have "list_all is_digit (digits_of (n div 10))" by simp
    moreover have "is_digit (digit_char (n mod 10))"
      by (rule is_digit_digit_char) simp_all
    ultimately show ?thesis
      using False by (simp add: digits_of.simps [of n])
  qed
qed

lemma not_digit_point: "\<not> is_digit CHR ''.''"
  by (simp add: is_digit_def)

lemma not_minus_digit: "is_digit c \<Longrightarrow> c \<noteq> CHR ''-''"
  by (auto simp: is_digit_def)

lemma is_digit_zero: "is_digit CHR ''0''"
  by (simp add: is_digit_def)

lemma fixed_digits_shape:
  assumes "0 \<le> a" and "0 < f"
  shows "\<exists>ip fp. fixed_digits f a = ip @ ''.'' @ fp \<and> ip \<noteq> [] \<and> list_all is_digit ip
           \<and> list_all is_digit fp \<and> length fp = f"
proof -
  define m where "m = digits_of \<lfloor>a * 10 ^ f + 1 / 2\<rfloor>"
  define m' where "m' = (if length m \<le> f then replicate (Suc f - length m) CHR ''0'' @ m else m)"
  have "0 \<le> \<lfloor>a * 10 ^ f + 1 / 2\<rfloor>" using assms(1) by simp
  then have m: "m \<noteq> []" "list_all is_digit m"
    using digits_of_digits unfolding m_def by blast+
  have len: "f < length m'" using m(1) by (auto simp: m'_def)
  have dig: "list_all is_digit m'"
    using m(2) by (simp add: m'_def is_digit_zero list_all_iff)
  have eq: "fixed_digits f a = take (length m' - f) m' @ ''.'' @ drop (length m' - f) m'"
    using assms(2) by (simp add: fixed_digits_def Let_def m_def m'_def)
  have "take (length m' - f) m' \<noteq> []" using len by (cases m') auto
  moreover have "list_all is_digit (take (length m' - f) m')"
    using dig by (auto simp: list_all_iff dest: in_set_takeD)
  moreover have "list_all is_digit (drop (length m' - f) m')"
    using dig by (auto simp: list_all_iff dest: in_set_dropD)
  moreover have "length (drop (length m' - f) m') = f" using len by simp
  ultimately show ?thesis using eq by blast
qed

lemma has_decimals_shape:
  assumes "ip \<noteq> []" "list_all is_digit ip" "list_all is_digit fp"
  shows "has_decimals (length fp) (ip @ ''.'' @ fp)"
    and "has_decimals (length fp) (''-'' @ ip @ ''.'' @ fp)"
proof -
  have hd: "hd (ip @ ''.'' @ fp) \<noteq> CHR ''-''"
    using assms(1,2) by (cases ip) (auto dest: not_minus_digit)
  have tk: "takeWhile is_digit (ip @ ''.'' @ fp) = ip"
    using assms(2) by (simp add: list_all_iff not_digit_point)
  have dr: "dropWhile is_digit (ip @ ''.'' @ fp) = ''.'' @ fp"
    using assms(2) by (simp add: list_all_iff not_digit_point)
  show "has_decimals (length fp) (ip @ ''.'' @ fp)"
    using hd assms(1,3) tk dr by (simp add: has_decimals_def Let_def not_digit_point)
  have tk': "takeWhile is_digit (ip @ CHR ''.'' # fp) = ip"
    using tk by simp
  have dr': "dropWhile is_digit (ip @ CHR ''.'' # fp) = CHR ''.'' # fp"
    using dr by simp
  show "has_decimals (length fp) (''-'' @ ip @ ''.'' @ fp)"
    using assms(1,3) tk' dr' by (simp add: has_decimals_def Let_def not_digit_point)
qed

lemma toFixed_has_decimals:
  assumes "\<bar>r\<bar> < 10 ^ 21" and "0 < f"
  shows "has_decimals f (toFixed f (Finite r))"
proof -
  from fixed_digits_shape [of "\<bar>r\<bar>" f] assms(2) obtain ip fp where
    s: "fixed_digits f \<bar>r\<bar> = ip @ ''.'' @ fp" "ip \<noteq> []" "list_all is_digit ip"
       "list_all is_digit fp" "length fp = f"
    by auto
  show ?thesis
    using assms(1) s(1,5) has_decimals_shape [OF s(2,3,4)]
    by (cases "r < 0") simp_all
qed

lemma is_prefix_append: "is_prefix t (t @ ys)"
  by (induction t) simp_all

lemma str_includes_append: "str_includes (xs @ t @ ys) t"
proof (induction xs)
  case Nil
  show ?case by (cases "t @ ys") (use is_prefix_append [of t ys] in auto)
next
  case (Cons x xs)
  then show ?case by simp
qed

section \<open>The alert\<close>

lemma fetchRate_success:
  assumes "response_ok status"
    and "get_prop (Val data) ''rates'' = Inr rates"
    and "get_prop rates ''MYR'' = Inr newRate"
  shows "fetchRate cl ev (Response status statusText (Body data)) s =
     (case alert_step cl ev newRate of
        Inr acts \<Rightarrow>
          s\<lparr>rate := newRate, lastChecked := Some (now ev), error := None,
            effects := effects s @ acts, isLoading := False\<rparr>
      | Inl e \<Rightarrow>
          s\<lparr>rate := newRate, lastChecked := Some (now ev), error := Some (error_message e),
            effects := effects s @ [ConsoleError ''Failed to fetch exchange rate:'' (error_message e)],
            isLoading := False\<rparr>)"
  using assms
  by (simp add: fetchRate_def fetchRate_settle_def fetchRate_try_def Let_def split: sum.splits)

lemma alert_step_number:
  "alert_step cl ev (Val (JNum n)) =
     (if num_gt n (cl_threshold cl) then
        (case notification ev of
           Unsupported \<Rightarrow> Inl (JsError ''Notification is not defined'')
         | Supported p \<Rightarrow>
             if p \<noteq> Granted then Inr []
             else if cl_sound cl \<noteq> []
             then Inr ([PlayAudio (cl_sound cl),
                        ShowNotification alert_title (alert_body (toFixed 4 n) (cl_threshold cl)) True]
                       @ (case playback ev of
                            None \<Rightarrow> []
                          | Some m \<Rightarrow> [ConsoleError ''Error playing audio:'' m]))
             else Inr [ShowNotification alert_title (alert_body (toFixed 4 n) (cl_threshold cl)) False])
      else Inr [])"
  by (simp add: alert_step_def js_gt_def Let_def split: notification_api.splits)

text \<open>
  Claim C1. After a successful fetch whose body carries the finite rate \<open>r\<close>, with the
  finite threshold \<open>t\<close>, the call shows a desktop notification if and only if \<open>t < r\<close>
  strictly and \<^verbatim>\<open>Notification.permission\<close> is \<^verbatim>\<open>granted\<close>: a rate equal to the threshold
  never alerts, and no other permission state alerts, whatever the rate.
\<close>

theorem alert_iff_above_threshold_and_granted:
  assumes "response_ok status"
    and "get_prop (Val data) ''rates'' = Inr rates"
    and "get_prop rates ''MYR'' = Inr (Val (JNum (Finite r)))"
    and "cl_threshold cl = Finite t"
  shows "list_ex is_notification
           (new_effects s (fetchRate cl ev (Response status statusText (Body data)) s))
         \<longleftrightarrow> t < r \<and> notification ev = Supported Granted"
proof -
  note run = fetchRate_success [OF assms(1-3), of cl ev statusText s]
  show ?thesis
  proof (cases "t < r")
    case False
    then show ?thesis
      using assms(4) by (simp add: run alert_step_number new_effects_def)
  next
    case True
    show ?thesis
    proof (cases "notification ev")
      case Unsupported
      then show ?thesis
        using True assms(4) by (simp add: run alert_step_number new_effects_def)
    next
      case (Supported p)
      then show ?thesis
        using True assms(4)
        by (cases "playback ev") (simp_all add: run alert_step_number new_effects_def)
    qed
  qed
qed


theorem alert_iff_above_threshold_and_granted_witness:
  "response_ok 200
   \<and> get_prop (Val (JObj [(''base'', JStr ''SGD''), (''rates'', JObj [(''MYR'', JNum (Finite (13 / 4)))])]))
         ''rates'' = Inr (Val (JObj [(''MYR'', JNum (Finite (13 / 4)))]))
   \<and> get_prop (Val (JObj [(''MYR'', JNum (Finite (13 / 4)))])) ''MYR''
         = Inr (Val (JNum (Finite (13 / 4))))
   \<and> cl_threshold \<lparr>cl_threshold = Finite 3, cl_sound = []\<rparr> = Finite 3
   \<and> list_ex is_notification
         (new_effects initial
            (fetchRate \<lparr>cl_threshold = Finite 3, cl_sound = []\<rparr>
               \<lparr>notification = Supported Granted, now = 0, playback = None\<rparr>
               (Response 200 ''OK''
                  (Body (JObj [(''base'', JStr ''SGD''),
                               (''rates'', JObj [(''MYR'', JNum (Finite (13 / 4)))])])))
               initial))"
proof -
  have h1: "response_ok 200" by (simp add: response_ok_def)
  have h2: "get_prop (Val (JObj [(''base'', JStr ''SGD''), (''rates'', JObj [(''MYR'', JNum (Finite (13 / 4)))])]))
         ''rates'' = Inr (Val (JObj [(''MYR'', JNum (Finite (13 / 4)))]))" by simp
  have h3: "get_prop (Val (JObj [(''MYR'', JNum (Finite (13 / 4)))])) ''MYR''
         = Inr (Val (JNum (Finite (13 / 4))))" by simp
  have h4: "cl_threshold \<lparr>cl_threshold = Finite 3, cl_sound = []\<rparr> = Finite 3" by simp
  show ?thesis
    using h1 h2 h3 h4
      alert_iff_above_threshold_and_granted [OF h1 h2 h3 h4, of initial
        "\<lparr>notification = Supported Granted, now = 0, playback = None\<rparr>" "''OK''"]
    by simp
qed

text \<open>
  Claim C9. Whenever the alert step shows a notification: with a non-empty
  \<^verbatim>\<open>notificationSound\<close> it asks for playback of that sound and shows the notification with
  \<^verbatim>\<open>silent\<close> set, and a rejected playback adds a console message after the notification,
  which is shown all the same; with the empty sound (the entry \<^verbatim>\<open>Default\<close>, the choice of
  no sound) the notification is the only effect and \<^verbatim>\<open>silent\<close> is not set.
\<close>

theorem sound_and_silent_notification:
  assumes "alert_step cl ev v = Inr acts"
    and "list_ex is_notification acts"
  shows "\<exists>b. acts =
           (if cl_sound cl \<noteq> []
            then [PlayAudio (cl_sound cl), ShowNotification alert_title b True]
                 @ (case playback ev of
                      None \<Rightarrow> []
                    | Some m \<Rightarrow> [ConsoleError ''Error playing audio:'' m])
            else [ShowNotification alert_title b False])"
  using assms
  by (auto simp: alert_step_def Let_def
           split: sum.splits bool.splits notification_api.splits if_splits option.splits)

theorem sound_and_silent_notification_witness:
  "alert_step \<lparr>cl_threshold = Finite 3, cl_sound = ''chime.mp3''\<rparr>
      \<lparr>notification = Supported Granted, now = 0, playback = Some ''NotAllowedError''\<rparr>
      (Val (JNum (Finite (13 / 4))))
    = Inr [PlayAudio ''chime.mp3'',
           ShowNotification alert_title
             (alert_body (toFixed 4 (Finite (13 / 4))) (Finite 3)) True,
           ConsoleError ''Error playing audio:'' ''NotAllowedError'']
   \<and> list_ex is_notification
        [PlayAudio ''chime.mp3'',
         ShowNotification alert_title
           (alert_body (toFixed 4 (Finite (13 / 4))) (Finite 3)) True,
         ConsoleError ''Error playing audio:'' ''NotAllowedError'']
   \<and> (\<exists>b. [PlayAudio ''chime.mp3'',
            ShowNotification alert_title
              (alert_body (toFixed 4 (Finite (13 / 4))) (Finite 3)) True,
            ConsoleError ''Error playing audio:'' ''NotAllowedError'']
          = [PlayAudio ''chime.mp3'', ShowNotification alert_title b True,
             ConsoleError ''Error playing audio:'' ''NotAllowedError''])"
proof -
  have h1: "alert_step \<lparr>cl_threshold = Finite 3, cl_sound = ''chime.mp3''\<rparr>
      \<lparr>notification = Supported Granted, now = 0, playback = Some ''NotAllowedError''\<rparr>
      (Val (JNum (Finite (13 / 4))))
    = Inr [PlayAudio ''chime.mp3'',
           ShowNotification alert_title
             (alert_body (toFixed 4 (Finite (13 / 4))) (Finite 3)) True,
           ConsoleError ''Error playing audio:'' ''NotAllowedError'']"
    by (simp add: alert_step_number)
  have h2: "list_ex is_notification
        [PlayAudio ''chime.mp3'',
         ShowNotification alert_title
           (alert_body (toFixed 4 (Finite (13 / 4))) (Finite 3)) True,
         ConsoleError ''Error playing audio:'' ''NotAllowedError'']"
    by simp
  show ?thesis
    using h1 h2 sound_and_silent_notification [OF h1 h2] by simp
qed

text \<open>
  Claim C3, as amended. Every notification the alert step shows is for a Number \<open>n\<close> and
  has the body \<^verbatim>\<open>SGD is now \<close>\<open>toFixed 4 n\<close>\<^verbatim>\<open> MYR, exceeding the \<close>\<open>to_string threshold\<close>\<^verbatim>\<open> threshold.\<close>:
  it contains the rate as \<^verbatim>\<open>toFixed(4)\<close> prints it, with exactly four decimal places for
  every finite rate below \<open>10 ^ 21\<close> in magnitude, and it contains the threshold as the
  template literal prints a Number, in its shortest form, not with two decimal places.
\<close>

theorem alert_message_format:
  assumes "alert_step cl ev v = Inr acts"
    and "ShowNotification title b silent \<in> set acts"
  shows "\<exists>n. v = Val (JNum n)
           \<and> b = ''SGD is now '' @ toFixed 4 n @ '' MYR, exceeding the ''
                 @ to_string (cl_threshold cl) @ '' threshold.''
           \<and> str_includes b (toFixed 4 n)
           \<and> str_includes b (to_string (cl_threshold cl))
           \<and> (\<forall>r. n = Finite r \<longrightarrow> \<bar>r\<bar> < 10 ^ 21 \<longrightarrow> has_decimals 4 (toFixed 4 n))"
proof -
  from assms obtain fixed where
    fixed: "call_toFixed v 4 = Inr fixed" and b: "b = alert_body fixed (cl_threshold cl)"
    by (auto simp: alert_step_def Let_def
             split: sum.splits bool.splits notification_api.splits if_splits option.splits)
  from fixed obtain n where n: "v = Val (JNum n)" "fixed = toFixed 4 n"
    by (cases "(v, 4 :: nat)" rule: call_toFixed.cases) auto
  have 1: "b = ''SGD is now '' @ toFixed 4 n @ '' MYR, exceeding the ''
                 @ to_string (cl_threshold cl) @ '' threshold.''"
    using b n(2) by (simp add: alert_body_def)
  have 2: "str_includes b (toFixed 4 n)"
    unfolding 1 by (rule str_includes_append)
  have 3: "str_includes b (to_string (cl_threshold cl))"
    using str_includes_append
      [of "''SGD is now '' @ toFixed 4 n @ '' MYR, exceeding the ''"
          "to_string (cl_threshold cl)" "'' threshold.''"]
    unfolding 1 by simp
  have 4: "\<forall>r. n = Finite r \<longrightarrow> \<bar>r\<bar> < 10 ^ 21 \<longrightarrow> has_decimals 4 (toFixed 4 n)"
    using toFixed_has_decimals [of _ 4] by simp
  show ?thesis using n(1) 1 2 3 4 by blast
qed

lemma toFixed_sample: "toFixed 4 (Finite (13 / 4)) = ''3.2500''"
  by code_simp

lemma to_string_default_threshold: "to_string (round_double (16 / 5)) = ''3.2''"
  by code_simp

theorem alert_message_format_witness:
  "alert_step \<lparr>cl_threshold = round_double (16 / 5), cl_sound = []\<rparr>
      \<lparr>notification = Supported Granted, now = 0, playback = None\<rparr>
      (Val (JNum (Finite (13 / 4))))
     = Inr [ShowNotification alert_title
              ''SGD is now 3.2500 MYR, exceeding the 3.2 threshold.'' False]
   \<and> str_includes ''SGD is now 3.2500 MYR, exceeding the 3.2 threshold.'' ''3.2500''
   \<and> str_includes ''SGD is now 3.2500 MYR, exceeding the 3.2 threshold.'' ''3.2''
   \<and> has_decimals 4 ''3.2500''"
proof -
  let ?cl = "\<lparr>cl_threshold = round_double (16 / 5), cl_sound = []\<rparr>"
  let ?b = "''SGD is now 3.2500 MYR, exceeding the 3.2 threshold.''"
  have h1: "alert_step ?cl \<lparr>notification = Supported Granted, now = 0, playback = None\<rparr>
      (Val (JNum (Finite (13 / 4)))) = Inr [ShowNotification alert_title ?b False]"
    by code_simp
  have h2: "ShowNotification alert_title ?b False \<in> set [ShowNotification alert_title ?b False]"
    by simp
  from alert_message_format [OF h1 h2] obtain n where
    n: "Val (JNum (Finite (13 / 4))) = Val (JNum n)"
       "str_includes ?b (toFixed 4 n)"
       "str_includes ?b (to_string (cl_threshold ?cl))"
       "\<forall>r. n = Finite r \<longrightarrow> \<bar>r\<bar> < 10 ^ 21 \<longrightarrow> has_decimals 4 (toFixed 4 n)"
    by blast
  from n(1) have eq: "n = Finite (13 / 4)" by simp
  from n(4) eq have "\<bar>13 / 4\<bar> < (10 :: rat) ^ 21 \<longrightarrow> has_decimals 4 (toFixed 4 n)"
    by blast
  then have "has_decimals 4 (toFixed 4 n)" by simp
  then have d: "has_decimals 4 ''3.2500''"
    unfolding eq toFixed_sample .
  have a: "str_includes ?b ''3.2500''"
    using n(2) unfolding eq toFixed_sample .
  have c: "str_includes ?b ''3.2''"
    using n(3) by (simp only: closure.select_convs to_string_default_threshold)
  show ?thesis
    using h1 a c d by (intro conjI)
qed

text \<open>
  Claim C3 as stated fails: with the initial threshold \<open>3.20\<close> and the rate \<open>3.25\<close> the
  body is \<^verbatim>\<open>SGD is now 3.2500 MYR, exceeding the 3.2 threshold.\<close>, in which \<^verbatim>\<open>3.20\<close>, the
  threshold with two decimal places, does not occur.
\<close>

theorem alert_message_threshold_counterexample:
  "effects (fetchRate (current_closure initial)
              \<lparr>notification = Supported Granted, now = 0, playback = None\<rparr>
              (Response 200 ''OK''
                 (Body (JObj [(''rates'', JObj [(''MYR'', JNum (Finite (13 / 4)))])])))
              initial)
     = [ShowNotification ''SGD to MYR Rate Alert!''
          ''SGD is now 3.2500 MYR, exceeding the 3.2 threshold.'' False]
   \<and> threshold initial = round_double (16 / 5)
   \<and> toFixed 2 (threshold initial) = ''3.20''
   \<and> \<not> str_includes ''SGD is now 3.2500 MYR, exceeding the 3.2 threshold.'' ''3.20''"
  by code_simp

section \<open>Validation of the settings\<close>

lemma parseInt_accepted:
  "(\<not> isNaN (parseInt t) \<and> num_gt (parseInt t) (Finite 0))
   \<longleftrightarrow> (case int_prefix t of None \<Rightarrow> False | Some z \<Rightarrow> 0 < z)"
proof (cases "int_prefix t")
  case None
  then show ?thesis by (simp add: parseInt_def)
next
  case (Some z)
  have "pow2 (- 1075) < of_int z \<longleftrightarrow> 0 < z"
  proof
    assume "pow2 (- 1075) < of_int z"
    with pow2_pos [of "- 1075"] have "(0::rat) < of_int z" by linarith
    then show "0 < z" by simp
  next
    assume "0 < z"
    then have "(1::rat) \<le> of_int z" by (simp add: int_one_le_iff_zero_less)
    moreover have "pow2 (- 1075) < pow2 0" by (rule pow2_less) simp
    moreover have "pow2 0 = 1" by (simp add: pow2_def)
    ultimately show "pow2 (- 1075) < of_int z" by linarith
  qed
  with Some show ?thesis
    by (simp add: parseInt_def round_double_not_NaN round_double_pos_iff)
qed

lemma int_prefix_samples:
  "int_prefix ''10'' = Some 10" "int_prefix ''0'' = Some 0" "int_prefix ''3.5'' = Some 3"
  "int_prefix ''abc'' = None" "int_prefix ''-4'' = Some (- 4)" "int_prefix '' +7 min'' = Some 7"
  by code_simp+

lemma round_double_samples:
  "round_double 10 = Finite 10" "round_double 3 = Finite 3"
  by code_simp+

text \<open>
  Claim C4, as amended. \<^verbatim>\<open>handleSetCheckInterval\<close> reads the integer that
  \<^verbatim>\<open>parseInt(text, 10)\<close> finds at the head of the text: after leading white space and an
  optional sign, the longest run of decimal digits, whatever follows it. It installs that
  integer (as a Number) exactly when there is one and it is greater than \<open>0\<close>, and
  otherwise only sets the error message. So \<^verbatim>\<open>10\<close> installs \<open>10\<close>, \<^verbatim>\<open>0\<close> is rejected, and
  \<^verbatim>\<open>3.5\<close> is read as \<open>3\<close>.
\<close>

theorem handleSetCheckInterval_accepts:
  "handleSetCheckInterval s =
     (case int_prefix (inputCheckInterval s) of
        None \<Rightarrow> s\<lparr>intervalError := Some ''Please enter a valid positive number (minutes).''\<rparr>
      | Some z \<Rightarrow>
          if 0 < z
          then s\<lparr>checkInterval := round_double (of_int z),
                 inputCheckInterval := to_string (round_double (of_int z)),
                 intervalError := None\<rparr>
          else s\<lparr>intervalError := Some ''Please enter a valid positive number (minutes).''\<rparr>)
   \<and> int_prefix ''10'' = Some 10 \<and> round_double 10 = Finite 10
   \<and> int_prefix ''0'' = Some 0
   \<and> int_prefix ''3.5'' = Some 3 \<and> round_double 3 = Finite 3"
proof -
  have "handleSetCheckInterval s =
     (case int_prefix (inputCheckInterval s) of
        None \<Rightarrow> s\<lparr>intervalError := Some ''Please enter a valid positive number (minutes).''\<rparr>
      | Some z \<Rightarrow>
          if 0 < z
          then s\<lparr>checkInterval := round_double (of_int z),
                 inputCheckInterval := to_string (round_double (of_int z)),
                 intervalError := None\<rparr>
          else s\<lparr>intervalError := Some ''Please enter a valid positive number (minutes).''\<rparr>)"
    using parseInt_accepted [of "inputCheckInterval s"]
    by (cases "int_prefix (inputCheckInterval s)")
       (simp_all add: handleSetCheckInterval_def Let_def parseInt_def)
  then show ?thesis
    by (simp only: int_prefix_samples round_double_samples simp_thms)
qed

text \<open>
  Claim C4 as stated fails: the text \<^verbatim>\<open>3.5\<close> is not rejected, it installs the
  interval \<open>3\<close> and leaves no error.
\<close>

theorem handleSetCheckInterval_fraction_counterexample:
  "checkInterval (handleSetCheckInterval (initial\<lparr>inputCheckInterval := ''3.5''\<rparr>)) = Finite 3
   \<and> intervalError (handleSetCheckInterval (initial\<lparr>inputCheckInterval := ''3.5''\<rparr>)) = None"
  by code_simp

lemma digits_value_nonneg:
  assumes "list_all is_digit ds"
  shows "0 \<le> digits_value ds"
proof -
  have "0 \<le> a \<Longrightarrow> list_all is_digit ds \<Longrightarrow> 0 \<le> foldl (\<lambda>acc c. 10 * acc + digit_value c) a ds" for a
    by (induction ds arbitrary: a) (auto simp: is_digit_def digit_value_def)
  with assms show ?thesis by (simp add: digits_value_def)
qed

lemma takeWhile_digits: "list_all is_digit (takeWhile is_digit u)"
  by (auto simp: list_all_iff dest: set_takeWhileD)

lemma pow10_pos: "0 < pow10 i"
  by (simp add: pow10_def)

lemma unsigned_decimal_nonneg:
  assumes "unsigned_decimal u = Some (q, r)"
  shows "0 \<le> q"
proof -
  have "0 \<le> digits_value (takeWhile is_digit u @ fp)" if "list_all is_digit fp" for fp
    using that takeWhile_digits [of u] by (intro digits_value_nonneg) simp
  then have key: "0 \<le> (of_int (digits_value (takeWhile is_digit u @ fp)) :: rat) * pow10 i"
    if "list_all is_digit fp" for fp i
    using that pow10_pos [of i] by simp
  have key0: "0 \<le> (of_int (digits_value (takeWhile is_digit u)) :: rat) * pow10 i" for i
    using key [of "[]" i] by simp
  from assms key key0 show ?thesis
    by (auto simp: unsigned_decimal_def Let_def takeWhile_digits split: if_splits prod.splits)
qed

lemma parseFloat_accepted:
  "(\<not> isNaN (parseFloat t) \<and> num_gt (parseFloat t) (Finite 0))
   \<longleftrightarrow> (case split_sign (dropWhile is_white t) of
          (neg, u) \<Rightarrow>
            \<not> neg \<and> (take 8 u = ''Infinity''
                     \<or> (case unsigned_decimal u of
                           None \<Rightarrow> False
                         | Some (q, _) \<Rightarrow> pow2 (- 1075) < q)))"
proof -
  obtain neg u where su: "split_sign (dropWhile is_white t) = (neg, u)"
    by (cases "split_sign (dropWhile is_white t)")
  show ?thesis
  proof (cases "take 8 u = ''Infinity''")
    case True
    with su show ?thesis by (simp add: parseFloat_def)
  next
    case notinf: False
    show ?thesis
    proof (cases "unsigned_decimal u")
      case None
      with su notinf show ?thesis by (simp add: parseFloat_def)
    next
      case (Some p)
      obtain q r where p: "p = (q, r)" by (cases p)
      from Some p have "0 \<le> q" by (auto dest: unsigned_decimal_nonneg)
      then have "\<not> pow2 (- 1075) < - q" using pow2_pos [of "- 1075"] by linarith
      with su notinf Some p show ?thesis
        by (simp add: parseFloat_def round_double_not_NaN round_double_pos_iff)
    qed
  qed
qed

lemma parseFloat_samples:
  "parseFloat ''3.20'' = round_double (16 / 5)"
  "parseFloat ''-1'' = Finite (- 1)"
  "parseFloat ''abc'' = NaN"
  "parseFloat ''0'' = Finite 0"
  "parseFloat ''Infinity'' = PosInfinity"
  by code_simp+

text \<open>
  Claim C5, as amended. \<^verbatim>\<open>handleSetThreshold\<close> accepts the text and installs
  \<^verbatim>\<open>parseFloat(text)\<close> exactly when that Number is not NaN and greater than \<open>0\<close>: the
  text, after leading white space, has no minus sign and starts either with
  \<^verbatim>\<open>Infinity\<close> or with a decimal literal whose value does not round to zero (it exceeds
  \<open>2\<close> to the \<open>- 1075\<close>); whatever follows the literal is ignored. Otherwise only the
  error message is set. So \<^verbatim>\<open>3.20\<close> installs the Number \<open>3.20\<close>; \<^verbatim>\<open>-1\<close>, \<^verbatim>\<open>abc\<close> and
  \<^verbatim>\<open>0\<close> are rejected; and \<^verbatim>\<open>Infinity\<close> is accepted, the guard being \<^verbatim>\<open>isNaN\<close>.
\<close>

theorem handleSetThreshold_accepts:
  "handleSetThreshold s =
     (if (case split_sign (dropWhile is_white (inputThreshold s)) of
            (neg, u) \<Rightarrow>
              \<not> neg \<and> (take 8 u = ''Infinity''
                       \<or> (case unsigned_decimal u of
                             None \<Rightarrow> False
                           | Some (q, _) \<Rightarrow> pow2 (- 1075) < q)))
      then s\<lparr>threshold := parseFloat (inputThreshold s),
             inputThreshold := to_string (parseFloat (inputThreshold s)),
             thresholdError := None\<rparr>
      else s\<lparr>thresholdError := Some ''Please enter a valid positive number.''\<rparr>)
   \<and> threshold (handleSetThreshold (s\<lparr>inputThreshold := ''3.20''\<rparr>)) = round_double (16 / 5)
   \<and> handleSetThreshold (s\<lparr>inputThreshold := ''-1''\<rparr>)
       = s\<lparr>inputThreshold := ''-1'', thresholdError := Some ''Please enter a valid positive number.''\<rparr>
   \<and> handleSetThreshold (s\<lparr>inputThreshold := ''abc''\<rparr>)
       = s\<lparr>inputThreshold := ''abc'', thresholdError := Some ''Please enter a valid positive number.''\<rparr>
   \<and> handleSetThreshold (s\<lparr>inputThreshold := ''0''\<rparr>)
       = s\<lparr>inputThreshold := ''0'', thresholdError := Some ''Please enter a valid positive number.''\<rparr>
   \<and> threshold (handleSetThreshold (s\<lparr>inputThreshold := ''Infinity''\<rparr>)) = PosInfinity"
proof -
  have pos: "num_gt (round_double (16 / 5)) (Finite 0)"
    by code_simp
  have "handleSetThreshold s =
     (if (case split_sign (dropWhile is_white (inputThreshold s)) of
            (neg, u) \<Rightarrow>
              \<not> neg \<and> (take 8 u = ''Infinity''
                       \<or> (case unsigned_decimal u of
                             None \<Rightarrow> False
                           | Some (q, _) \<Rightarrow> pow2 (- 1075) < q)))
      then s\<lparr>threshold := parseFloat (inputThreshold s),
             inputThreshold := to_string (parseFloat (inputThreshold s)),
             thresholdError := None\<rparr>
      else s\<lparr>thresholdError := Some ''Please enter a valid positive number.''\<rparr>)"
    using parseFloat_accepted [of "inputThreshold s"]
    by (simp add: handleSetThreshold_def Let_def)
  moreover have "threshold (handleSetThreshold (s\<lparr>inputThreshold := ''3.20''\<rparr>)) = round_double (16 / 5)"
    using pos by (simp add: handleSetThreshold_def Let_def parseFloat_samples round_double_not_NaN)
  moreover have "handleSetThreshold (s\<lparr>inputThreshold := ''-1''\<rparr>)
       = s\<lparr>inputThreshold := ''-1'', thresholdError := Some ''Please enter a valid positive number.''\<rparr>"
    by (simp add: handleSetThreshold_def Let_def parseFloat_samples)
  moreover have "handleSetThreshold (s\<lparr>inputThreshold := ''abc''\<rparr>)
       = s\<lparr>inputThreshold := ''abc'', thresholdError := Some ''Please enter a valid positive number.''\<rparr>"
    by (simp add: handleSetThreshold_def Let_def parseFloat_samples)
  moreover have "handleSetThreshold (s\<lparr>inputThreshold := ''0''\<rparr>)
       = s\<lparr>inputThreshold := ''0'', thresholdError := Some ''Please enter a valid positive number.''\<rparr>"
    by (simp add: handleSetThreshold_def Let_def parseFloat_samples)
  moreover have "threshold (handleSetThreshold (s\<lparr>inputThreshold := ''Infinity''\<rparr>)) = PosInfinity"
    by (simp add: handleSetThreshold_def Let_def parseFloat_samples)
  ultimately show ?thesis by (intro conjI)
qed

text \<open>
  Claim C5 as stated fails: the text \<^verbatim>\<open>Infinity\<close> parses to a Number that is not finite,
  and it is installed as the threshold without an error.
\<close>

theorem handleSetThreshold_infinity_counterexample:
  "threshold (handleSetThreshold (initial\<lparr>inputThreshold := ''Infinity''\<rparr>)) = PosInfinity
   \<and> thresholdError (handleSetThreshold (initial\<lparr>inputThreshold := ''Infinity''\<rparr>)) = None"
  by code_simp

lemma handleSetThreshold_failed:
  assumes "thresholdError (handleSetThreshold s) \<noteq> None"
  shows "handleSetThreshold s = s\<lparr>thresholdError := Some ''Please enter a valid positive number.''\<rparr>"
  using assms by (auto simp: handleSetThreshold_def Let_def split: if_splits)

lemma handleSetCheckInterval_failed:
  assumes "intervalError (handleSetCheckInterval s) \<noteq> None"
  shows "handleSetCheckInterval s
           = s\<lparr>intervalError := Some ''Please enter a valid positive number (minutes).''\<rparr>"
  using assms by (auto simp: handleSetCheckInterval_def Let_def split: if_splits)

text \<open>
  Claim C6. When the validation of a submitted threshold or interval fails, the whole
  state after the submission is the state before it with only the form's error message
  set: \<^verbatim>\<open>threshold\<close> and \<^verbatim>\<open>checkInterval\<close> keep their values, the polling effect does
  not run again, and the timer and the calls in flight are untouched.
\<close>

theorem failed_validation_keeps_configuration:
  "(thresholdError (handleSetThreshold s) \<noteq> None \<longrightarrow>
      step s SubmitThreshold = s\<lparr>thresholdError := Some ''Please enter a valid positive number.''\<rparr>)
   \<and> (intervalError (handleSetCheckInterval s) \<noteq> None \<longrightarrow>
      step s SubmitInterval
        = s\<lparr>intervalError := Some ''Please enter a valid positive number (minutes).''\<rparr>)"
proof (intro conjI impI)
  assume "thresholdError (handleSetThreshold s) \<noteq> None"
  then have "handleSetThreshold s
               = s\<lparr>thresholdError := Some ''Please enter a valid positive number.''\<rparr>"
    by (rule handleSetThreshold_failed)
  then show "step s SubmitThreshold
               = s\<lparr>thresholdError := Some ''Please enter a valid positive number.''\<rparr>"
    by (simp add: commit_def deps_changed_def)
next
  assume "intervalError (handleSetCheckInterval s) \<noteq> None"
  then have "handleSetCheckInterval s
               = s\<lparr>intervalError := Some ''Please enter a valid positive number (minutes).''\<rparr>"
    by (rule handleSetCheckInterval_failed)
  then show "step s SubmitInterval
               = s\<lparr>intervalError := Some ''Please enter a valid positive number (minutes).''\<rparr>"
    by (simp add: commit_def deps_changed_def)
qed

theorem failed_validation_keeps_configuration_witness:
  "thresholdError (handleSetThreshold (mounted\<lparr>inputThreshold := ''abc''\<rparr>)) \<noteq> None
   \<and> step (mounted\<lparr>inputThreshold := ''abc''\<rparr>) SubmitThreshold
       = mounted\<lparr>inputThreshold := ''abc'',
                 thresholdError := Some ''Please enter a valid positive number.''\<rparr>
   \<and> intervalError (handleSetCheckInterval (mounted\<lparr>inputCheckInterval := ''0''\<rparr>)) \<noteq> None
   \<and> step (mounted\<lparr>inputCheckInterval := ''0''\<rparr>) SubmitInterval
       = mounted\<lparr>inputCheckInterval := ''0'',
                 intervalError := Some ''Please enter a valid positive number (minutes).''\<rparr>"
proof -
  have h1: "thresholdError (handleSetThreshold (mounted\<lparr>inputThreshold := ''abc''\<rparr>)) \<noteq> None"
    by (simp add: handleSetThreshold_def Let_def parseFloat_samples)
  have h2: "intervalError (handleSetCheckInterval (mounted\<lparr>inputCheckInterval := ''0''\<rparr>)) \<noteq> None"
    by (simp add: handleSetCheckInterval_def Let_def parseInt_def int_prefix_samples
                  round_double_def)
  show ?thesis
    using h1 h2
      failed_validation_keeps_configuration [of "mounted\<lparr>inputThreshold := ''abc''\<rparr>"]
      failed_validation_keeps_configuration [of "mounted\<lparr>inputCheckInterval := ''0''\<rparr>"]
    by simp
qed

section \<open>Failures of a fetch\<close>

text \<open>
  Claim C7, at the input on which the code breaks it. The first response is a
  successful one whose body has \<^verbatim>\<open>rates\<close> but no \<^verbatim>\<open>MYR\<close> in it. \<^verbatim>\<open>data.rates.MYR\<close> is
  then \<^verbatim>\<open>undefined\<close>, which is stored as the rate; nothing is thrown, no error is set,
  and the status shown is \<^verbatim>\<open>Monitoring\<close> with no rate at all. A body without \<^verbatim>\<open>rates\<close>
  does raise an error, and shows \<^verbatim>\<open>Error\<close>.
\<close>

theorem monitoring_without_sample:
  "status_of (run [Settles 0 \<lparr>notification = Supported Granted, now = 0, playback = None\<rparr>
                     (Response 200 ''OK'' (Body (JObj [(''rates'', JObj [])])))]) = Monitoring
   \<and> rate (run [Settles 0 \<lparr>notification = Supported Granted, now = 0, playback = None\<rparr>
                     (Response 200 ''OK'' (Body (JObj [(''rates'', JObj [])])))]) = Undefined
   \<and> error (run [Settles 0 \<lparr>notification = Supported Granted, now = 0, playback = None\<rparr>
                     (Response 200 ''OK'' (Body (JObj [(''rates'', JObj [])])))]) = None
   \<and> status_of (run [Settles 0 \<lparr>notification = Supported Granted, now = 0, playback = None\<rparr>
                     (Response 200 ''OK'' (Body (JObj [])))]) = Error"
  by code_simp

text \<open>The status \<^verbatim>\<open>Error\<close> is only ever shown with an error message present.\<close>

lemma status_error_has_message:
  "status_of s = Error \<Longrightarrow> \<exists>m. error s = Some m \<and> m \<noteq> []"
  by (cases "error s") (auto simp: status_of_def StatusIndicator_def split: if_splits)

lemma fetchRate_try_frame:
  assumes "fetchRate_try cl ev res s = (ex, s1)"
  shows "timer s1 = timer s" "inFlight s1 = inFlight s" "threshold s1 = threshold s"
    "checkInterval s1 = checkInterval s" "notificationSound s1 = notificationSound s"
    "error s1 = error s" "isLoading s1 = isLoading s"
    "ex \<noteq> None \<Longrightarrow> effects s1 = effects s"
  using assms
  by (auto simp: fetchRate_try_def Let_def
        split: fetch_result.splits body.splits sum.splits if_splits)

lemma fetchRate_settle_frame:
  "isLoading (fetchRate_settle cl ev res s) = False"
  "timer (fetchRate_settle cl ev res s) = timer s"
  "inFlight (fetchRate_settle cl ev res s) = inFlight s"
  "threshold (fetchRate_settle cl ev res s) = threshold s"
  "checkInterval (fetchRate_settle cl ev res s) = checkInterval s"
  "notificationSound (fetchRate_settle cl ev res s) = notificationSound s"
proof -
  obtain ex s1 where t: "fetchRate_try cl ev res s = (ex, s1)"
    by (cases "fetchRate_try cl ev res s")
  note fr = fetchRate_try_frame [OF t]
  show "isLoading (fetchRate_settle cl ev res s) = False"
    "timer (fetchRate_settle cl ev res s) = timer s"
    "inFlight (fetchRate_settle cl ev res s) = inFlight s"
    "threshold (fetchRate_settle cl ev res s) = threshold s"
    "checkInterval (fetchRate_settle cl ev res s) = checkInterval s"
    "notificationSound (fetchRate_settle cl ev res s) = notificationSound s"
    using fr by (simp_all add: fetchRate_settle_def t split: option.splits)
qed

lemma fetchRate_settle_failure:
  assumes "error s = None" and "error (fetchRate_settle cl ev res s) \<noteq> None"
  shows "\<exists>e. error (fetchRate_settle cl ev res s) = Some (error_message e)
           \<and> effects (fetchRate_settle cl ev res s)
               = effects s @ [ConsoleError ''Failed to fetch exchange rate:'' (error_message e)]"
proof -
  obtain ex s1 where t: "fetchRate_try cl ev res s = (ex, s1)"
    by (cases "fetchRate_try cl ev res s")
  note fr = fetchRate_try_frame [OF t]
  show ?thesis
  proof (cases ex)
    case None
    with assms fr(6) show ?thesis by (simp add: fetchRate_settle_def t)
  next
    case (Some e)
    with fr(8) have "error (fetchRate_settle cl ev res s) = Some (error_message e)
           \<and> effects (fetchRate_settle cl ev res s)
               = effects s @ [ConsoleError ''Failed to fetch exchange rate:'' (error_message e)]"
      by (simp add: fetchRate_settle_def t)
    then show ?thesis by blast
  qed
qed

text \<open>
  Claim C8, as amended. The state has no kind of failure, only a message. A rejected
  \<^verbatim>\<open>fetch\<close> records the message of the rejection; a response with a status outside
  \<open>200\<close> to \<open>299\<close> records \<^verbatim>\<open>API error: \<close>status text\<^verbatim>\<open> (\<close>status code\<^verbatim>\<open>)\<close> and shows the
  status \<^verbatim>\<open>Error\<close>; a body that is not JSON records the message of the parser. Whenever
  a call ends with an error recorded, it has added one console message to the trace and
  nothing else: no notification and no playback. Every call ends with \<^verbatim>\<open>isLoading\<close>
  false, and neither the call nor the event that resumes it touches the interval timer,
  so that the next tick comes as armed.
\<close>

theorem fetch_failure_recorded:
  "fetchRate cl ev (Rejected e) s
     = s\<lparr>isLoading := False, error := Some (error_message e),
         effects := effects s @ [ConsoleError ''Failed to fetch exchange rate:'' (error_message e)]\<rparr>
   \<and> (\<not> response_ok status \<longrightarrow>
        fetchRate cl ev (Response status statusText b) s
          = s\<lparr>isLoading := False,
              error := Some (''API error: '' @ statusText @ '' ('' @ digits_of status @ '')''),
              effects := effects s @ [ConsoleError ''Failed to fetch exchange rate:''
                          (''API error: '' @ statusText @ '' ('' @ digits_of status @ '')'')]\<rparr>
        \<and> status_of (fetchRate cl ev (Response status statusText b) s) = Error)
   \<and> (response_ok okStatus \<longrightarrow>
        fetchRate cl ev (Response okStatus okText (BodyFails e)) s
          = s\<lparr>isLoading := False, error := Some (error_message e),
              effects := effects s @ [ConsoleError ''Failed to fetch exchange rate:'' (error_message e)]\<rparr>)
   \<and> (error (fetchRate cl ev res s) \<noteq> None \<longrightarrow>
        \<not> list_ex is_notification (new_effects s (fetchRate cl ev res s))
        \<and> \<not> list_ex is_playback (new_effects s (fetchRate cl ev res s)))
   \<and> isLoading (fetchRate cl ev res s) = False
   \<and> timer (fetchRate cl ev res s) = timer s
   \<and> timer (step s (Settles i ev res)) = timer s"
proof (intro conjI impI)
  show "fetchRate cl ev (Rejected e) s
     = s\<lparr>isLoading := False, error := Some (error_message e),
         effects := effects s @ [ConsoleError ''Failed to fetch exchange rate:'' (error_message e)]\<rparr>"
    by (simp add: fetchRate_def fetchRate_settle_def fetchRate_try_def)
next
  assume "\<not> response_ok status"
  then show "fetchRate cl ev (Response status statusText b) s
          = s\<lparr>isLoading := False,
              error := Some (''API error: '' @ statusText @ '' ('' @ digits_of status @ '')''),
              effects := effects s @ [ConsoleError ''Failed to fetch exchange rate:''
                          (''API error: '' @ statusText @ '' ('' @ digits_of status @ '')'')]\<rparr>"
    by (simp add: fetchRate_def fetchRate_settle_def fetchRate_try_def error_message_def)
  then show "status_of (fetchRate cl ev (Response status statusText b) s) = Error"
    by (simp add: status_of_def StatusIndicator_def)
next
  assume "response_ok okStatus"
  then show "fetchRate cl ev (Response okStatus okText (BodyFails e)) s
          = s\<lparr>isLoading := False, error := Some (error_message e),
              effects := effects s @ [ConsoleError ''Failed to fetch exchange rate:'' (error_message e)]\<rparr>"
    by (simp add: fetchRate_def fetchRate_settle_def fetchRate_try_def)
next
  assume err: "error (fetchRate cl ev res s) \<noteq> None"
  have "\<exists>e. effects (fetchRate cl ev res s)
          = effects s @ [ConsoleError ''Failed to fetch exchange rate:'' (error_message e)]"
    using fetchRate_settle_failure [of "s\<lparr>isLoading := True, error := None\<rparr>" cl ev res] err
    by (auto simp: fetchRate_def)
  then obtain e' where "new_effects s (fetchRate cl ev res s)
      = [ConsoleError ''Failed to fetch exchange rate:'' (error_message e')]"
    by (auto simp: new_effects_def)
  then show "\<not> list_ex is_notification (new_effects s (fetchRate cl ev res s))"
    and "\<not> list_ex is_playback (new_effects s (fetchRate cl ev res s))"
    by simp_all
next
  show "isLoading (fetchRate cl ev res s) = False"
    by (simp add: fetchRate_def fetchRate_settle_frame)
  show "timer (fetchRate cl ev res s) = timer s"
    by (simp add: fetchRate_def fetchRate_settle_frame)
  show "timer (step s (Settles i ev res)) = timer s"
    by (simp add: settle_def fetchRate_settle_frame)
qed

lemma digits_of_500: "digits_of 500 = ''500''"
  by code_simp

theorem fetch_failure_recorded_witness:
  "\<not> response_ok 500
   \<and> error (fetchRate (current_closure initial)
              \<lparr>notification = Supported Granted, now = 0, playback = None\<rparr>
              (Response 500 ''Internal Server Error'' (Body JNull)) initial)
       = Some ''API error: Internal Server Error (500)''
   \<and> status_of (fetchRate (current_closure initial)
              \<lparr>notification = Supported Granted, now = 0, playback = None\<rparr>
              (Response 500 ''Internal Server Error'' (Body JNull)) initial) = Error
   \<and> \<not> list_ex is_notification
         (new_effects initial
            (fetchRate (current_closure initial)
               \<lparr>notification = Supported Granted, now = 0, playback = None\<rparr>
               (Response 500 ''Internal Server Error'' (Body JNull)) initial))
   \<and> timer (step mounted
              (Settles 0 \<lparr>notification = Supported Granted, now = 0, playback = None\<rparr>
                 (Response 500 ''Internal Server Error'' (Body JNull)))) = timer mounted
   \<and> response_ok 200
   \<and> error (fetchRate (current_closure initial)
              \<lparr>notification = Supported Granted, now = 0, playback = None\<rparr>
              (Response 200 ''OK'' (BodyFails (JsError ''Unexpected end of JSON input''))) initial)
       = Some ''Unexpected end of JSON input''"
proof -
  let ?ev = "\<lparr>notification = Supported Granted, now = 0, playback = None\<rparr>"
  let ?res = "Response 500 ''Internal Server Error'' (Body JNull)"
  have h: "\<not> response_ok 500" by (simp add: response_ok_def)
  note a = fetch_failure_recorded
    [of "current_closure initial" ?ev "JsError ''Unexpected end of JSON input''" initial
        500 "''Internal Server Error''" "Body JNull" 200 "''OK''" ?res 0]
  note b = fetch_failure_recorded
    [of "current_closure initial" ?ev "JsError ''Unexpected end of JSON input''" mounted
        500 "''Internal Server Error''" "Body JNull" 200 "''OK''" ?res 0]
  from a h have 1: "error (fetchRate (current_closure initial) ?ev ?res initial)
       = Some ''API error: Internal Server Error (500)''"
    by (simp add: digits_of_500)
  from a h have 2: "status_of (fetchRate (current_closure initial) ?ev ?res initial) = Error"
    by blast
  from a 1 have 3: "\<not> list_ex is_notification
         (new_effects initial (fetchRate (current_closure initial) ?ev ?res initial))"
    by simp
  from b have 4: "timer (step mounted (Settles 0 ?ev ?res)) = timer mounted"
    by blast
  have h': "response_ok 200" by (simp add: response_ok_def)
  from a h' have 5: "error (fetchRate (current_closure initial) ?ev
        (Response 200 ''OK'' (BodyFails (JsError ''Unexpected end of JSON input''))) initial)
       = Some ''Unexpected end of JSON input''"
    by (simp add: error_message_def)
  show ?thesis using h 1 2 3 4 h' 5 by (intro conjI)
qed

text \<open>
  Claim C8 as stated fails. A successful response whose body lacks the field \<^verbatim>\<open>MYR\<close>
  records no error at all; and a rejected \<^verbatim>\<open>fetch\<close> and an unreadable body that carry
  the same message leave the very same state, which therefore tells no kinds apart.
\<close>

theorem failure_kind_counterexample:
  "error (fetchRate (current_closure initial)
            \<lparr>notification = Supported Granted, now = 0, playback = None\<rparr>
            (Response 200 ''OK'' (Body (JObj [(''rates'', JObj [])]))) initial) = None
   \<and> fetchRate (current_closure initial)
        \<lparr>notification = Supported Granted, now = 0, playback = None\<rparr>
        (Rejected (JsError ''Failed to fetch'')) initial
     = fetchRate (current_closure initial)
        \<lparr>notification = Supported Granted, now = 0, playback = None\<rparr>
        (Response 200 ''OK'' (BodyFails (JsError ''Failed to fetch''))) initial"
  by code_simp

section \<open>The polling timer\<close>

lemma timer_mounted: "timer mounted = Some (current_closure initial, intervalMs initial)"
  by (simp add: mounted_def polling_effect_def fetchRate_begin_def)

lemma run_snoc: "run (evs @ [e]) = step (run evs) e"
  by (simp add: run_def)

lemma run_timer_fires:
  "timer (run (replicate n TimerFires)) = timer mounted
   \<and> length (inFlight (run (replicate n TimerFires))) = Suc n"
proof (induction n)
  case 0
  show ?case
    by (simp add: run_def mounted_def polling_effect_def fetchRate_begin_def initial_def)
next
  case (Suc n)
  have "replicate (Suc n) TimerFires = replicate n TimerFires @ [TimerFires]"
    by (simp add: replicate_append_same)
  then have "run (replicate (Suc n) TimerFires) = step (run (replicate n TimerFires)) TimerFires"
    by (simp only: run_snoc)
  with Suc show ?case
    by (simp add: timer_mounted fetchRate_begin_def)
qed

text \<open>
  Claim C2, as amended. The timer is a fixed-rate one: the polling effect arms it with
  the period \<^verbatim>\<open>checkInterval * 60 * 1000\<close> milliseconds and starts a call of
  \<^verbatim>\<open>fetchRate\<close> at once; every firing starts another call and leaves the timer as it is;
  the end of a call never touches the timer. Nothing holds a call back while others are
  in flight, except for the refresh button, which does nothing while \<^verbatim>\<open>isLoading\<close>: after
  \<open>n\<close> firings with no response yet, \<open>n + 1\<close> calls are in flight.
\<close>

theorem fixed_rate_polling:
  "(timer s = Some (cl, d) \<longrightarrow>
      inFlight (step s TimerFires) = inFlight s @ [cl] \<and> timer (step s TimerFires) = timer s)
   \<and> timer (step s (Settles i ev res)) = timer s
   \<and> timer (polling_effect s)
       = Some (current_closure s, num_mul (num_mul (checkInterval s) (Finite 60)) (Finite 1000))
   \<and> inFlight (polling_effect s) = inFlight s @ [current_closure s]
   \<and> (isLoading s \<longrightarrow> step s RefreshClick = s)
   \<and> (\<not> isLoading s \<longrightarrow> inFlight (step s RefreshClick) = inFlight s @ [current_closure s])
   \<and> length (inFlight (run (replicate n TimerFires))) = Suc n"
  using run_timer_fires [of n]
  by (simp add: fetchRate_begin_def polling_effect_def intervalMs_def settle_def
                fetchRate_settle_frame)

theorem fixed_rate_polling_witness:
  "timer mounted = Some (\<lparr>cl_threshold = round_double (16 / 5), cl_sound = []\<rparr>, Finite 600000)
   \<and> isLoading mounted
   \<and> inFlight (step mounted TimerFires)
       = [\<lparr>cl_threshold = round_double (16 / 5), cl_sound = []\<rparr>,
          \<lparr>cl_threshold = round_double (16 / 5), cl_sound = []\<rparr>]
   \<and> step mounted RefreshClick = mounted
   \<and> \<not> isLoading (mounted\<lparr>isLoading := False\<rparr>)
   \<and> length (inFlight (step (mounted\<lparr>isLoading := False\<rparr>) RefreshClick)) = 2"
proof -
  let ?cl = "\<lparr>cl_threshold = round_double (16 / 5), cl_sound = []\<rparr>"
  have t: "timer mounted = Some (?cl, Finite 600000)" by code_simp
  have l: "isLoading mounted" by code_simp
  have f: "inFlight mounted = [?cl]" by code_simp
  have c: "current_closure (mounted\<lparr>isLoading := False\<rparr>) = ?cl" by code_simp
  have n: "\<not> isLoading (mounted\<lparr>isLoading := False\<rparr>)" by simp
  note a = fixed_rate_polling [of mounted ?cl "Finite 600000" 0
      "\<lparr>notification = Supported Granted, now = 0, playback = None\<rparr>" "Rejected NonError" 0]
  note b = fixed_rate_polling [of "mounted\<lparr>isLoading := False\<rparr>" ?cl "Finite 600000" 0
      "\<lparr>notification = Supported Granted, now = 0, playback = None\<rparr>" "Rejected NonError" 0]
  from a t f have 1: "inFlight (step mounted TimerFires) = [?cl, ?cl]" by simp
  from a l have 2: "step mounted RefreshClick = mounted" by blast
  from b n f c have 3: "length (inFlight (step (mounted\<lparr>isLoading := False\<rparr>) RefreshClick)) = 2"
    by simp
  show ?thesis using t l 1 2 n 3 by (intro conjI)
qed

text \<open>
  Claim C2 as stated fails: two calls are in flight when the timer fires before the first
  response has come, and also when a new interval is submitted before it has come.
\<close>

theorem overlapping_fetches_counterexample:
  "length (inFlight (run [TimerFires])) = 2
   \<and> length (inFlight (run [IntervalInput ''1'', SubmitInterval])) = 2"
  by code_simp

section \<open>Reconfiguration\<close>

lemma commit_changed:
  assumes "deps_changed s h" and "inFlight h = inFlight s"
  shows "inFlight (commit s h) = inFlight s @ [current_closure h]"
    and "timer (commit s h) = Some (current_closure h, intervalMs h)"
    and "threshold (commit s h) = threshold h"
    and "checkInterval (commit s h) = checkInterval h"
    and "notificationSound (commit s h) = notificationSound h"
    and "isLoading (commit s h)"
  using assms
  by (simp_all add: commit_def polling_effect_def fetchRate_begin_def current_closure_def
                    intervalMs_def)

text \<open>
  Claim C10. Every successful reconfiguration, that is a submission that installs a new
  threshold or a new interval, different from the current one, or the choice of a new
  sound, makes the polling effect run again: a call of \<^verbatim>\<open>fetchRate\<close> with the new values
  starts at once, whatever is in flight, and in addition the timer is armed anew, with
  the new closure and the period of the interval now installed. Nothing waits for the
  next tick of the old timer.
\<close>

theorem reconfiguration_triggers_check:
  "(threshold (handleSetThreshold s) \<noteq> threshold s \<longrightarrow>
      inFlight (step s SubmitThreshold)
        = inFlight s @ [\<lparr>cl_threshold = threshold (handleSetThreshold s),
                          cl_sound = notificationSound s\<rparr>]
      \<and> timer (step s SubmitThreshold)
          = Some (\<lparr>cl_threshold = threshold (handleSetThreshold s),
                    cl_sound = notificationSound s\<rparr>, intervalMs s)
      \<and> threshold (step s SubmitThreshold) = threshold (handleSetThreshold s))
   \<and> (checkInterval (handleSetCheckInterval s) \<noteq> checkInterval s \<longrightarrow>
      inFlight (step s SubmitInterval) = inFlight s @ [current_closure s]
      \<and> timer (step s SubmitInterval)
          = Some (current_closure s,
                  num_mul (num_mul (checkInterval (handleSetCheckInterval s)) (Finite 60))
                    (Finite 1000))
      \<and> checkInterval (step s SubmitInterval) = checkInterval (handleSetCheckInterval s))
   \<and> (v \<noteq> notificationSound s \<longrightarrow>
      inFlight (step s (SoundChange v))
        = inFlight s @ [\<lparr>cl_threshold = threshold s, cl_sound = v\<rparr>]
      \<and> timer (step s (SoundChange v))
          = Some (\<lparr>cl_threshold = threshold s, cl_sound = v\<rparr>, intervalMs s)
      \<and> notificationSound (step s (SoundChange v)) = v)"
proof (intro conjI impI)
  assume a: "threshold (handleSetThreshold s) \<noteq> threshold s"
  let ?h = "handleSetThreshold s"
  have d: "deps_changed s ?h" using a by (simp add: deps_changed_def)
  have f: "inFlight ?h = inFlight s" "notificationSound ?h = notificationSound s"
    "checkInterval ?h = checkInterval s"
    by (simp_all add: handleSetThreshold_def Let_def)
  show "inFlight (step s SubmitThreshold)
        = inFlight s @ [\<lparr>cl_threshold = threshold ?h, cl_sound = notificationSound s\<rparr>]"
    using commit_changed(1) [OF d f(1)] f(2) by (simp add: current_closure_def)
  show "timer (step s SubmitThreshold)
          = Some (\<lparr>cl_threshold = threshold ?h, cl_sound = notificationSound s\<rparr>, intervalMs s)"
    using commit_changed(2) [OF d f(1)] f(2,3) by (simp add: current_closure_def intervalMs_def)
  show "threshold (step s SubmitThreshold) = threshold ?h"
    using commit_changed(3) [OF d f(1)] by simp
next
  assume a: "checkInterval (handleSetCheckInterval s) \<noteq> checkInterval s"
  let ?h = "handleSetCheckInterval s"
  have d: "deps_changed s ?h" using a by (simp add: deps_changed_def)
  have f: "inFlight ?h = inFlight s" "notificationSound ?h = notificationSound s"
    "threshold ?h = threshold s"
    by (simp_all add: handleSetCheckInterval_def Let_def)
  show "inFlight (step s SubmitInterval) = inFlight s @ [current_closure s]"
    using commit_changed(1) [OF d f(1)] f(2,3) by (simp add: current_closure_def)
  show "timer (step s SubmitInterval)
          = Some (current_closure s,
                  num_mul (num_mul (checkInterval ?h) (Finite 60)) (Finite 1000))"
    using commit_changed(2) [OF d f(1)] f(2,3) by (simp add: current_closure_def intervalMs_def)
  show "checkInterval (step s SubmitInterval) = checkInterval ?h"
    using commit_changed(4) [OF d f(1)] by simp
next
  assume a: "v \<noteq> notificationSound s"
  let ?h = "handleSoundChange v s"
  have d: "deps_changed s ?h" using a by (simp add: deps_changed_def handleSoundChange_def)
  have f: "inFlight ?h = inFlight s" "notificationSound ?h = v"
    "threshold ?h = threshold s" "checkInterval ?h = checkInterval s"
    by (simp_all add: handleSoundChange_def)
  show "inFlight (step s (SoundChange v))
        = inFlight s @ [\<lparr>cl_threshold = threshold s, cl_sound = v\<rparr>]"
    using commit_changed(1) [OF d f(1)] f(2,3) by (simp add: current_closure_def)
  show "timer (step s (SoundChange v))
          = Some (\<lparr>cl_threshold = threshold s, cl_sound = v\<rparr>, intervalMs s)"
    using commit_changed(2) [OF d f(1)] f(2,3,4) by (simp add: current_closure_def intervalMs_def)
  show "notificationSound (step s (SoundChange v)) = v"
    using commit_changed(5) [OF d f(1)] f(2) by simp
qed

theorem reconfiguration_triggers_check_witness:
  "threshold (handleSetThreshold (mounted\<lparr>inputThreshold := ''3.5''\<rparr>))
     \<noteq> threshold (mounted\<lparr>inputThreshold := ''3.5''\<rparr>)
   \<and> inFlight (step (mounted\<lparr>inputThreshold := ''3.5''\<rparr>) SubmitThreshold)
       = [\<lparr>cl_threshold = round_double (16 / 5), cl_sound = []\<rparr>,
          \<lparr>cl_threshold = Finite (7 / 2), cl_sound = []\<rparr>]
   \<and> checkInterval (handleSetCheckInterval (mounted\<lparr>inputCheckInterval := ''1''\<rparr>))
       \<noteq> checkInterval (mounted\<lparr>inputCheckInterval := ''1''\<rparr>)
   \<and> timer (step (mounted\<lparr>inputCheckInterval := ''1''\<rparr>) SubmitInterval)
       = Some (\<lparr>cl_threshold = round_double (16 / 5), cl_sound = []\<rparr>, Finite 60000)
   \<and> ''chime.mp3'' \<noteq> notificationSound mounted
   \<and> inFlight (step mounted (SoundChange ''chime.mp3''))
       = [\<lparr>cl_threshold = round_double (16 / 5), cl_sound = []\<rparr>,
          \<lparr>cl_threshold = round_double (16 / 5), cl_sound = ''chime.mp3''\<rparr>]"
proof -
  let ?s1 = "mounted\<lparr>inputThreshold := ''3.5''\<rparr>"
  let ?s2 = "mounted\<lparr>inputCheckInterval := ''1''\<rparr>"
  let ?cl = "\<lparr>cl_threshold = round_double (16 / 5), cl_sound = []\<rparr>"
  have h1: "threshold (handleSetThreshold ?s1) \<noteq> threshold ?s1" by code_simp
  have h2: "checkInterval (handleSetCheckInterval ?s2) \<noteq> checkInterval ?s2" by code_simp
  have h3: "''chime.mp3'' \<noteq> notificationSound mounted" by code_simp
  have e1: "threshold (handleSetThreshold ?s1) = Finite (7 / 2)" by code_simp
  have e2: "num_mul (num_mul (checkInterval (handleSetCheckInterval ?s2)) (Finite 60)) (Finite 1000)
              = Finite 60000" by code_simp
  have f: "inFlight mounted = [?cl]" "notificationSound mounted = []"
    "threshold mounted = round_double (16 / 5)" "current_closure mounted = ?cl"
    by code_simp+
  note a = reconfiguration_triggers_check [of ?s1 "''chime.mp3''"]
  note b = reconfiguration_triggers_check [of ?s2 "''chime.mp3''"]
  note c = reconfiguration_triggers_check [of mounted "''chime.mp3''"]
  from a h1 have 1: "inFlight (step ?s1 SubmitThreshold) = [?cl, \<lparr>cl_threshold = Finite (7 / 2), cl_sound = []\<rparr>]"
    by (simp add: e1 f)
  from b h2 have "timer (step ?s2 SubmitInterval)
      = Some (current_closure ?s2,
              num_mul (num_mul (checkInterval (handleSetCheckInterval ?s2)) (Finite 60)) (Finite 1000))"
    by blast
  then have 2: "timer (step ?s2 SubmitInterval) = Some (?cl, Finite 60000)"
    using f(4) by (simp add: e2 current_closure_def)
  from c h3 have 3: "inFlight (step mounted (SoundChange ''chime.mp3''))
      = [?cl, \<lparr>cl_threshold = round_double (16 / 5), cl_sound = ''chime.mp3''\<rparr>]"
    by (simp add: f)
  show ?thesis using h1 1 h2 2 h3 3 by (intro conjI)
qed

text \<open>
  The effect runs again only when a dependency differs: a submission that installs the
  value already in place changes nothing but the form, starts no call and leaves the
  timer as it is.
\<close>

lemma unchanged_value_starts_nothing:
  "threshold (handleSetThreshold s) = threshold s \<Longrightarrow>
     step s SubmitThreshold = handleSetThreshold s"
  "checkInterval (handleSetCheckInterval s) = checkInterval s \<Longrightarrow>
     step s SubmitInterval = handleSetCheckInterval s"
  "step s (SoundChange (notificationSound s)) = s"
  by (simp_all add: commit_def deps_changed_def handleSetThreshold_def
        handleSetCheckInterval_def handleSoundChange_def Let_def)

lemma unchanged_value_frame:
  "inFlight (handleSetThreshold s) = inFlight s" "timer (handleSetThreshold s) = timer s"
  "inFlight (handleSetCheckInterval s) = inFlight s" "timer (handleSetCheckInterval s) = timer s"
  by (simp_all add: handleSetThreshold_def handleSetCheckInterval_def Let_def)

end
